theory Spec2Isabelle
  imports
    Complex_Main
    "HOL-Library.Char_ord"
    "HOL-Library.List_Lexorder"
    "HOL-Library.Sublist"
begin

section \<open>Python strings\<close>

text \<open>
  A Python \<open>str\<close> is modelled as a \<open>string\<close>: a list of characters, each
  character standing for a code point below 256.  \<open>None\<close> is the \<open>None\<close> of
  \<open>option\<close>.  SQLite compares \<open>TEXT\<close> values bytewise, which on these strings is
  the lexicographic order of \<open>List_Lexorder\<close> over the character order of
  \<open>Char_ord\<close>.
\<close>

text \<open>\<open>str.isspace\<close> on one character; the class \<open>\s\<close> of \<open>re\<close> is the same set.\<close>

definition isspace :: "char \<Rightarrow> bool" where
  "isspace c =
     (let n = (of_char c :: nat)
      in (9 \<le> n \<and> n \<le> 13) \<or> (28 \<le> n \<and> n \<le> 32) \<or> n = 133 \<or> n = 160)"

definition strip :: "string \<Rightarrow> string" where
  "strip s = rev (dropWhile isspace (rev (dropWhile isspace s)))"

text \<open>Truthiness of an optional string: \<open>None\<close> and \<open>""\<close> are falsy.\<close>

fun truthy :: "string option \<Rightarrow> bool" where
  "truthy None = False"
| "truthy (Some s) = (s \<noteq> [])"

text \<open>\<open>str.lower\<close>: the letters A to Z and the capital letters of Latin-1.\<close>

definition lower_char :: "char \<Rightarrow> char" where
  "lower_char c =
     (let n = (of_char c :: nat)
      in if (65 \<le> n \<and> n \<le> 90) \<or> (192 \<le> n \<and> n \<le> 222 \<and> n \<noteq> 215)
         then char_of (n + 32) else c)"

definition lower :: "string \<Rightarrow> string" where
  "lower s = map lower_char s"

text \<open>The decimal digits (\<open>\d\<close> of \<open>re\<close>, on code points below 256) and their values.\<close>

definition isdigit :: "char \<Rightarrow> bool" where
  "isdigit c = (let n = (of_char c :: nat) in 48 \<le> n \<and> n \<le> 57)"

definition digit_val :: "char \<Rightarrow> nat" where
  "digit_val c = of_char c - 48"

definition digit_char :: "nat \<Rightarrow> char" where
  "digit_char d = char_of (48 + d)"

definition nat_of_digits :: "string \<Rightarrow> nat" where
  "nat_of_digits s = foldl (\<lambda>acc c. 10 * acc + digit_val c) 0 s"

definition ishex :: "char \<Rightarrow> bool" where
  "ishex c =
     (let n = (of_char c :: nat)
      in (48 \<le> n \<and> n \<le> 57) \<or> (65 \<le> n \<and> n \<le> 70) \<or> (97 \<le> n \<and> n \<le> 102))"

text \<open>\<open>str(n)\<close> for an integer, and \<open>"%0wd" % n\<close> for a natural number.\<close>

fun str_of_nat :: "nat \<Rightarrow> string" where
  "str_of_nat n = (if n < 10 then [digit_char n] else str_of_nat (n div 10) @ [digit_char (n mod 10)])"

declare str_of_nat.simps [simp del]

definition str_of_int :: "int \<Rightarrow> string" where
  "str_of_int i = (if i < 0 then CHR ''-'' # str_of_nat (nat (- i)) else str_of_nat (nat i))"

definition zero_pad :: "nat \<Rightarrow> nat \<Rightarrow> string" where
  "zero_pad w n = (let s = str_of_nat n in replicate (w - length s) CHR ''0'' @ s)"

text \<open>\<open>sep.join(xs)\<close>.\<close>

fun join :: "string \<Rightarrow> string list \<Rightarrow> string" where
  "join sep [] = []"
| "join sep [x] = x"
| "join sep (x # y # ys) = x @ sep @ join sep (y # ys)"

text \<open>\<open>s.split(c)\<close> for a one-character separator: always at least one part.\<close>

fun split_on :: "char \<Rightarrow> string \<Rightarrow> string list" where
  "split_on c [] = [[]]"
| "split_on c (x # xs) =
     (if x = c then [] # split_on c xs
      else (case split_on c xs of [] \<Rightarrow> [[x]] | p # ps \<Rightarrow> (x # p) # ps))"

text \<open>\<open>s.endswith(t)\<close>, and \<open>s.replace(old, new)\<close> for a non-empty \<open>old\<close>.\<close>

definition endswith :: "string \<Rightarrow> string \<Rightarrow> bool" where
  "endswith s t = (length t \<le> length s \<and> drop (length s - length t) s = t)"

fun replace_all :: "string \<Rightarrow> string \<Rightarrow> string \<Rightarrow> string" where
  "replace_all old new [] = []"
| "replace_all old new (x # xs) =
     (if old \<noteq> [] \<and> take (length old) (x # xs) = old
      then new @ replace_all old new (drop (length old) (x # xs))
      else x # replace_all old new xs)"

text \<open>
  \<open>repr\<close> of an optional string.  The quote is the apostrophe unless the string has an
  apostrophe and no double quote; the backslash and the quote are escaped, tab, newline
  and return have their letters, every other character that is not printable is written
  \<open>\xhh\<close>.
\<close>

definition hex_char :: "nat \<Rightarrow> char" where
  "hex_char d = (if d < 10 then char_of (48 + d) else char_of (87 + d))"

definition isprintable :: "char \<Rightarrow> bool" where
  "isprintable c =
     (let n = (of_char c :: nat) in (32 \<le> n \<and> n \<le> 126) \<or> (161 \<le> n \<and> n \<noteq> 173))"

definition repr_char :: "char \<Rightarrow> char \<Rightarrow> string" where
  "repr_char q c =
     (if c = q \<or> c = CHR 0x5C then [CHR 0x5C, c]
      else if c = CHR 0x09 then [CHR 0x5C, CHR ''t'']
      else if c = CHR 0x0A then [CHR 0x5C, CHR ''n'']
      else if c = CHR 0x0D then [CHR 0x5C, CHR ''r'']
      else if isprintable c then [c]
      else [CHR 0x5C, CHR ''x'', hex_char (of_char c div 16), hex_char (of_char c mod 16)])"

definition repr_str :: "string \<Rightarrow> string" where
  "repr_str s =
     (let q = (if CHR 0x27 \<in> set s \<and> CHR 0x22 \<notin> set s then CHR 0x22 else CHR 0x27)
      in [q] @ concat (map (repr_char q) s) @ [q])"

fun repr :: "string option \<Rightarrow> string" where
  "repr None = ''None''"
| "repr (Some s) = repr_str s"


section \<open>dq\_rules.py: patterns and coercions\<close>

text \<open>Exceptions are values; a function that may raise returns \<open>py_error + 'a\<close>.\<close>

datatype py_error =
    ValueError
  | OverflowError
  | FileNotFoundError
  | InvalidFileException
  | BadZipFile
  | IntegrityError string

text \<open>
  A pattern \<open>^...$\<close> under \<open>re.match\<close>: \<open>$\<close> matches at the end of the string and
  before a newline that ends it, so the pattern matches when its body covers the whole
  string, or all of it up to one final newline.
\<close>

definition re_dollar :: "(string \<Rightarrow> bool) \<Rightarrow> string \<Rightarrow> bool" where
  "re_dollar body s = (body s \<or> (s \<noteq> [] \<and> last s = CHR 0x0A \<and> body (butlast s)))"

text \<open>
  \<open>EMAIL_RE = ^[^@\s]+@[^@\s]+\.[^@\s]+$\<close>: a non-empty local part, an at sign, and a
  domain with a dot that is neither its first nor its last character, none of them with
  an at sign or a whitespace character.
\<close>

definition email_atom :: "char \<Rightarrow> bool" where
  "email_atom c = (c \<noteq> CHR ''@'' \<and> \<not> isspace c)"

definition email_body :: "string \<Rightarrow> bool" where
  "email_body s =
     (let local_part = takeWhile (\<lambda>c. c \<noteq> CHR ''@'') s;
          rest = dropWhile (\<lambda>c. c \<noteq> CHR ''@'') s
      in local_part \<noteq> [] \<and> list_all email_atom local_part \<and> rest \<noteq> [] \<and>
         list_all email_atom (tl rest) \<and> CHR ''.'' \<in> set (butlast (tl (tl rest))))"

definition EMAIL_RE :: "string \<Rightarrow> bool" where
  "EMAIL_RE s = re_dollar email_body s"

text \<open>
  \<open>IP_RE\<close>.  First alternative: four groups \<open>25[0-5]|2[0-4]\d|[01]?\d?\d\<close>, each
  followed by a dot that does not end the string, or by the end.  Second alternative:
  two to seven groups of at most four hexadecimal digits and a colon, then at most four
  hexadecimal digits.
\<close>

definition char_in :: "char \<Rightarrow> char \<Rightarrow> char \<Rightarrow> bool" where
  "char_in lo hi c = (lo \<le> c \<and> c \<le> hi)"

fun ip_octet :: "string \<Rightarrow> bool" where
  "ip_octet [a] = isdigit a"
| "ip_octet [a, b] = (isdigit a \<and> isdigit b)"
| "ip_octet [a, b, c] =
     ((a = CHR ''2'' \<and> b = CHR ''5'' \<and> char_in CHR ''0'' CHR ''5'' c) \<or>
      (a = CHR ''2'' \<and> char_in CHR ''0'' CHR ''4'' b \<and> isdigit c) \<or>
      (char_in CHR ''0'' CHR ''1'' a \<and> isdigit b \<and> isdigit c))"
| "ip_octet _ = False"

definition ipv4_body :: "string \<Rightarrow> bool" where
  "ipv4_body s = (let parts = split_on CHR ''.'' s in length parts = 4 \<and> list_all ip_octet parts)"

definition ipv6_body :: "string \<Rightarrow> bool" where
  "ipv6_body s =
     (let parts = split_on CHR '':'' s
      in 3 \<le> length parts \<and> length parts \<le> 8 \<and>
         list_all (\<lambda>p. length p \<le> 4 \<and> list_all ishex p) parts)"

definition IP_RE :: "string \<Rightarrow> bool" where
  "IP_RE s = (re_dollar ipv4_body s \<or> re_dollar ipv6_body s)"

subsection \<open>\<open>float(v)\<close> and \<open>int(x)\<close>\<close>

text \<open>
  A Python \<open>float\<close> is a binary64 value: a finite rational, an infinity or a NaN.
\<close>

datatype pyfloat = Finite rat | Infinity bool | NaN

definition pow2 :: "int \<Rightarrow> rat" where
  "pow2 k = (if 0 \<le> k then 2 ^ nat k else 1 / 2 ^ nat (- k))"

definition pow10 :: "int \<Rightarrow> rat" where
  "pow10 k = (if 0 \<le> k then 10 ^ nat k else 1 / 10 ^ nat (- k))"

fun bit_length :: "nat \<Rightarrow> nat" where
  "bit_length n = (if n = 0 then 0 else Suc (bit_length (n div 2)))"

declare bit_length.simps [simp del]

text \<open>The exponent \<open>e\<close> with \<open>2^e \<le> q < 2^(e+1)\<close>, for a positive \<open>q\<close>.\<close>

definition floor_log2 :: "rat \<Rightarrow> int" where
  "floor_log2 q =
     (let (a, b) = quotient_of q;
          e = int (bit_length (nat a)) - int (bit_length (nat b))
      in if pow2 e \<le> q then e else e - 1)"

definition round_half_even :: "rat \<Rightarrow> int" where
  "round_half_even q =
     (let f = \<lfloor>q\<rfloor>; r = q - of_int f
      in if r < 1 / 2 then f else if 1 / 2 < r then f + 1 else if even f then f else f + 1)"

text \<open>
  Rounding an exact value to the nearest binary64, ties to even: 53 bits of precision,
  exponents from \<open>-1022\<close>, and an infinity from \<open>2^1024\<close> on.
\<close>

definition to_double :: "rat \<Rightarrow> pyfloat" where
  "to_double q =
     (if q = 0 then Finite 0
      else
        let a = \<bar>q\<bar>;
            e = max (floor_log2 a) (- 1022);
            ulp = pow2 (e - 52);
            r = of_int (round_half_even (a / ulp)) * ulp
        in if pow2 1024 \<le> r then Infinity (q < 0)
           else Finite (if q < 0 then - r else r))"

text \<open>
  The grammar of \<open>float\<close> on a string without surrounding whitespace:
  \<open>[sign] (floatnumber | "inf" | "infinity" | "nan")\<close>, letters in any case, with
  \<open>digitpart ::= digit (["_"] digit)*\<close>,
  \<open>number ::= [digitpart] "." digitpart | digitpart ["."]\<close> and
  \<open>floatnumber ::= number [("e" | "E") [sign] digitpart]\<close>.
\<close>

fun digitpart_rest :: "string \<Rightarrow> string \<times> string" where
  "digitpart_rest [] = ([], [])"
| "digitpart_rest (c # cs) =
     (if isdigit c then (case digitpart_rest cs of (ds, r) \<Rightarrow> (c # ds, r))
      else if c = CHR ''_'' \<and> cs \<noteq> [] \<and> isdigit (hd cs)
        then (case digitpart_rest (tl cs) of (ds, r) \<Rightarrow> (hd cs # ds, r))
      else ([], c # cs))"

definition digitpart :: "string \<Rightarrow> (string \<times> string) option" where
  "digitpart s =
     (case s of
        [] \<Rightarrow> None
      | c # cs \<Rightarrow>
          if isdigit c then (case digitpart_rest cs of (ds, r) \<Rightarrow> Some (c # ds, r)) else None)"

definition split_sign :: "string \<Rightarrow> bool \<times> string" where
  "split_sign s =
     (case s of
        [] \<Rightarrow> (False, [])
      | c # cs \<Rightarrow>
          if c = CHR ''-'' then (True, cs) else if c = CHR ''+'' then (False, cs) else (False, s))"

definition float_exponent :: "string \<Rightarrow> int option" where
  "float_exponent s =
     (case s of
        [] \<Rightarrow> Some 0
      | c # cs \<Rightarrow>
          if c = CHR ''e'' \<or> c = CHR ''E'' then
            (case split_sign cs of
               (neg, ds) \<Rightarrow>
                 (case digitpart ds of
                    Some (d, []) \<Rightarrow> Some (if neg then - int (nat_of_digits d) else int (nat_of_digits d))
                  | _ \<Rightarrow> None))
          else None)"

definition floatnumber :: "string \<Rightarrow> rat option" where
  "floatnumber s =
     (let (ip, r1) = (case digitpart s of Some (d, r) \<Rightarrow> (d, r) | None \<Rightarrow> ([], s));
          (fp, r2, ok) =
            (case r1 of
               [] \<Rightarrow> ([], r1, ip \<noteq> [])
             | c # t \<Rightarrow>
                 if c = CHR ''.'' then
                   (case digitpart t of Some (d, r) \<Rightarrow> (d, r, True) | None \<Rightarrow> ([], t, ip \<noteq> []))
                 else ([], r1, ip \<noteq> []))
      in if \<not> ok then None
         else (case float_exponent r2 of
                 None \<Rightarrow> None
               | Some ex \<Rightarrow> Some (of_nat (nat_of_digits (ip @ fp)) * pow10 (ex - int (length fp)))))"

definition py_float :: "string \<Rightarrow> pyfloat option" where
  "py_float s =
     (case split_sign s of
        (neg, body) \<Rightarrow>
          if lower body = ''inf'' \<or> lower body = ''infinity'' then Some (Infinity neg)
          else if lower body = ''nan'' then Some NaN
          else map_option (\<lambda>q. to_double (if neg then - q else q)) (floatnumber body))"

text \<open>\<open>int(x)\<close> truncates towards zero; it raises on an infinity and on a NaN.\<close>

definition py_int :: "pyfloat \<Rightarrow> py_error + int" where
  "py_int x =
     (case x of
        Finite q \<Rightarrow> Inr (if 0 \<le> q then \<lfloor>q\<rfloor> else \<lceil>q\<rceil>)
      | Infinity _ \<Rightarrow> Inl OverflowError
      | NaN \<Rightarrow> Inl ValueError)"

text \<open>
  \<open>coerce_int\<close>: the \<open>except ValueError\<close> catches a string that is no number and the
  NaN; nothing catches the \<open>OverflowError\<close> of an infinity.
\<close>

definition coerce_int :: "string option \<Rightarrow> py_error + int option" where
  "coerce_int v =
     (case v of
        None \<Rightarrow> Inr None
      | Some v0 \<Rightarrow>
          let v1 = strip v0
          in if v1 = [] then Inr None
             else (case py_float v1 of
                     None \<Rightarrow> Inr None
                   | Some x \<Rightarrow>
                       (case py_int x of
                          Inr i \<Rightarrow> Inr (Some i)
                        | Inl ValueError \<Rightarrow> Inr None
                        | Inl e \<Rightarrow> Inl e)))"


section \<open>The \<open>datetime\<close> library\<close>

text \<open>
  A \<open>datetime\<close> object: the calendar fields and \<open>tzinfo\<close>, which is \<open>None\<close> for a
  naive value and otherwise the UTC offset, here in microseconds (\<open>timezone.utc\<close> is
  \<open>Some 0\<close>).  The constructor accepts years 1 to 9999, a day that exists in its
  month, a time of day below 24 hours and an offset strictly within one day.
\<close>

record datetime =
  dt_year :: nat
  dt_month :: nat
  dt_day :: nat
  dt_hour :: nat
  dt_minute :: nat
  dt_second :: nat
  dt_microsecond :: nat
  dt_tzinfo :: "int option"

definition is_leap :: "nat \<Rightarrow> bool" where
  "is_leap y = (y mod 4 = 0 \<and> (y mod 100 \<noteq> 0 \<or> y mod 400 = 0))"

definition days_in_month :: "nat \<Rightarrow> nat \<Rightarrow> nat" where
  "days_in_month y m =
     (if m = 2 then (if is_leap y then 29 else 28)
      else if m = 4 \<or> m = 6 \<or> m = 9 \<or> m = 11 then 30 else 31)"

definition valid_date :: "nat \<Rightarrow> nat \<Rightarrow> nat \<Rightarrow> bool" where
  "valid_date y m d = (1 \<le> y \<and> y \<le> 9999 \<and> 1 \<le> m \<and> m \<le> 12 \<and> 1 \<le> d \<and> d \<le> days_in_month y m)"

definition valid_offset :: "int option \<Rightarrow> bool" where
  "valid_offset tz = (case tz of None \<Rightarrow> True | Some off \<Rightarrow> - 86400000000 < off \<and> off < 86400000000)"

definition valid_datetime :: "datetime \<Rightarrow> bool" where
  "valid_datetime dt =
     (valid_date (dt_year dt) (dt_month dt) (dt_day dt) \<and>
      dt_hour dt < 24 \<and> dt_minute dt < 60 \<and> dt_second dt < 60 \<and> dt_microsecond dt < 1000000 \<and>
      valid_offset (dt_tzinfo dt))"

text \<open>\<open>datetime(y, m, d, H, M, S, us, tzinfo)\<close>: \<open>None\<close> is its \<open>ValueError\<close>.\<close>

definition mk_datetime ::
  "nat \<Rightarrow> nat \<Rightarrow> nat \<Rightarrow> nat \<Rightarrow> nat \<Rightarrow> nat \<Rightarrow> nat \<Rightarrow> int option \<Rightarrow> datetime option" where
  "mk_datetime y m d H M S us tz =
     (let dt = \<lparr>dt_year = y, dt_month = m, dt_day = d, dt_hour = H, dt_minute = M,
                 dt_second = S, dt_microsecond = us, dt_tzinfo = tz\<rparr>
      in if valid_datetime dt then Some dt else None)"

text \<open>
  \<open>dt.isoformat(sep)\<close>, whose default separator is \<open>T\<close>: \<open>YYYY-MM-DDTHH:MM:SS\<close>, then \<open>.ffffff\<close> when the microsecond
  is not zero, then the offset \<open>+HH:MM[:SS[.ffffff]]\<close> of an aware value.
\<close>

definition format_offset :: "int \<Rightarrow> string" where
  "format_offset off =
     (let a = \<bar>off\<bar>;
          hh = a div 3600000000;
          mm = a mod 3600000000 div 60000000;
          r = a mod 60000000
      in (if off < 0 then ''-'' else ''+'') @ zero_pad 2 (nat hh) @ '':'' @ zero_pad 2 (nat mm) @
         (if r \<noteq> 0
          then '':'' @ zero_pad 2 (nat (r div 1000000)) @
               (if r mod 1000000 \<noteq> 0 then ''.'' @ zero_pad 6 (nat (r mod 1000000)) else [])
          else []))"

definition isoformat_sep :: "char \<Rightarrow> datetime \<Rightarrow> string" where
  "isoformat_sep sep dt =
     zero_pad 4 (dt_year dt) @ ''-'' @ zero_pad 2 (dt_month dt) @ ''-'' @ zero_pad 2 (dt_day dt) @
     [sep] @ zero_pad 2 (dt_hour dt) @ '':'' @ zero_pad 2 (dt_minute dt) @ '':'' @
     zero_pad 2 (dt_second dt) @
     (if dt_microsecond dt \<noteq> 0 then ''.'' @ zero_pad 6 (dt_microsecond dt) else []) @
     (case dt_tzinfo dt of None \<Rightarrow> [] | Some off \<Rightarrow> format_offset off)"

definition isoformat :: "datetime \<Rightarrow> string" where
  "isoformat dt = isoformat_sep CHR ''T'' dt"

text \<open>
  \<open>dt.astimezone(timezone.utc)\<close> for an aware value with offset \<open>off\<close>: the offset
  is subtracted, which moves the date by at most one day; \<open>None\<close> is the
  \<open>OverflowError\<close> of a date before year 1 or after year 9999.
\<close>

definition prev_day :: "nat \<times> nat \<times> nat \<Rightarrow> (nat \<times> nat \<times> nat) option" where
  "prev_day ymd =
     (case ymd of
        (y, m, d) \<Rightarrow>
          if 1 < d then Some (y, m, d - 1)
          else if 1 < m then Some (y, m - 1, days_in_month y (m - 1))
          else if 1 < y then Some (y - 1, 12, 31)
          else None)"

definition next_day :: "nat \<times> nat \<times> nat \<Rightarrow> (nat \<times> nat \<times> nat) option" where
  "next_day ymd =
     (case ymd of
        (y, m, d) \<Rightarrow>
          if d < days_in_month y m then Some (y, m, d + 1)
          else if m < 12 then Some (y, m + 1, 1)
          else if y < 9999 then Some (y + 1, 1, 1)
          else None)"

definition astimezone_utc :: "datetime \<Rightarrow> int \<Rightarrow> datetime option" where
  "astimezone_utc dt off =
     (let tod = ((int (dt_hour dt) * 60 + int (dt_minute dt)) * 60 + int (dt_second dt)) * 1000000
                  + int (dt_microsecond dt) - off;
          shift = tod div 86400000000;
          t = tod mod 86400000000;
          ymd = (dt_year dt, dt_month dt, dt_day dt);
          date = (if shift < 0 then prev_day ymd else if 0 < shift then next_day ymd else Some ymd)
      in case date of
           None \<Rightarrow> None
         | Some (y, m, d) \<Rightarrow>
             Some \<lparr>dt_year = y, dt_month = m, dt_day = d,
                   dt_hour = nat (t div 3600000000),
                   dt_minute = nat (t div 60000000 mod 60),
                   dt_second = nat (t div 1000000 mod 60),
                   dt_microsecond = nat (t mod 1000000),
                   dt_tzinfo = Some 0\<rparr>)"

subsection \<open>A parser of ISO 8601 strings\<close>

text \<open>
  \<open>datetime.fromisoformat\<close> is a parameter of the model (a field of the environment
  below), since the strings it reads differ between the versions of the library.  The
  function \<open>basic_fromisoformat\<close> reads the grammar that every version documents,
  \<open>YYYY-MM-DD[*HH[:MM[:SS[.fff[fff]]]][+HH:MM[:SS[.ffffff]]]]\<close>, where \<open>*\<close> is any
  one character, and gives there the value of the library (an offset of zero whole
  seconds is \<open>timezone.utc\<close>); it is \<open>None\<close> on every other string.  It is the
  parser of the example environment, and an instance of the contract under which the
  properties of \<open>parse_date_to_iso_utc\<close> are proved.
\<close>

definition parse_digits :: "nat \<Rightarrow> string \<Rightarrow> nat option" where
  "parse_digits n s = (if length s = n \<and> list_all isdigit s then Some (nat_of_digits s) else None)"

definition parse_hh_mm_ss_ff :: "string \<Rightarrow> (nat \<times> nat \<times> nat \<times> nat) option" where
  "parse_hh_mm_ss_ff s =
     (case parse_digits 2 (take 2 s) of
        None \<Rightarrow> None
      | Some H \<Rightarrow>
          (case drop 2 s of
             [] \<Rightarrow> Some (H, 0, 0, 0)
           | c1 # s1 \<Rightarrow>
               if c1 \<noteq> CHR '':'' then None
               else
                 (case parse_digits 2 (take 2 s1) of
                    None \<Rightarrow> None
                  | Some M \<Rightarrow>
                      (case drop 2 s1 of
                         [] \<Rightarrow> Some (H, M, 0, 0)
                       | c2 # s2 \<Rightarrow>
                           if c2 \<noteq> CHR '':'' then None
                           else
                             (case parse_digits 2 (take 2 s2) of
                                None \<Rightarrow> None
                              | Some S \<Rightarrow>
                                  (case drop 2 s2 of
                                     [] \<Rightarrow> Some (H, M, S, 0)
                                   | c3 # f \<Rightarrow>
                                       if c3 \<noteq> CHR ''.'' then None
                                       else if length f = 3
                                         then map_option (\<lambda>u. (H, M, S, u * 1000)) (parse_digits 3 f)
                                       else map_option (\<lambda>u. (H, M, S, u)) (parse_digits 6 f)))))))"

definition parse_isoformat_time :: "string \<Rightarrow> (nat \<times> nat \<times> nat \<times> nat \<times> int option) option" where
  "parse_isoformat_time tstr =
     (let no_sign = (\<lambda>c. c \<noteq> CHR ''+'' \<and> c \<noteq> CHR ''-'');
          timestr = takeWhile no_sign tstr;
          rest = dropWhile no_sign tstr
      in case parse_hh_mm_ss_ff timestr of
           None \<Rightarrow> None
         | Some (H, M, S, us) \<Rightarrow>
             (case rest of
                [] \<Rightarrow> Some (H, M, S, us, None)
              | sg # tzstr \<Rightarrow>
                  if length tzstr \<noteq> 5 \<and> length tzstr \<noteq> 8 \<and> length tzstr \<noteq> 15 then None
                  else
                    (case parse_hh_mm_ss_ff tzstr of
                       None \<Rightarrow> None
                     | Some (th, tm, ts, tus) \<Rightarrow>
                         let secs = (int th * 60 + int tm) * 60 + int ts;
                             off = (if secs = 0 then 0 else secs * 1000000 + int tus)
                         in Some (H, M, S, us, Some (if sg = CHR ''-'' then - off else off)))))"

definition basic_fromisoformat :: "string \<Rightarrow> datetime option" where
  "basic_fromisoformat s =
     (if length s < 10 \<or> s ! 4 \<noteq> CHR ''-'' \<or> s ! 7 \<noteq> CHR ''-'' then None
      else
        (case (parse_digits 4 (take 4 s), parse_digits 2 (take 2 (drop 5 s)),
               parse_digits 2 (take 2 (drop 8 s))) of
           (Some y, Some m, Some d) \<Rightarrow>
             if length s = 10 then mk_datetime y m d 0 0 0 0 None
             else
               (case parse_isoformat_time (drop 11 s) of
                  None \<Rightarrow> None
                | Some (H, M, S, us, tz) \<Rightarrow> mk_datetime y m d H M S us tz)
         | _ \<Rightarrow> None))"

subsection \<open>\<open>datetime.strptime\<close>\<close>

text \<open>
  The library turns a format into a regular expression, matched at the start of the
  string without regard to case: \<open>%Y\<close> is \<open>\d\d\d\d\<close>, \<open>%m\<close> is
  \<open>1[0-2]|0[1-9]|[1-9]\<close>, \<open>%d\<close> is \<open>3[0-1]|[1-2]\d|0[1-9]|[1-9]| [1-9]\<close>, \<open>%H\<close> is
  \<open>2[0-3]|[0-1]\d|\d\<close>, \<open>%M\<close> is \<open>[0-5]\d|\d\<close>, \<open>%S\<close> is \<open>6[0-1]|[0-5]\d|\d\<close>, and
  a run of whitespace is \<open>\s+\<close>.  The matcher below returns the matches in the order
  in which the backtracking engine tries them; the first is the match of the library,
  which then raises when text remains or the fields are no date.
\<close>

datatype directive = DY | Dm | Dd | DH | DM | DS | DSpace | DLit char | DUnknown char

fun compile_format :: "string \<Rightarrow> directive list" where
  "compile_format [] = []"
| "compile_format [c] = (if isspace c then [DSpace] else [DLit c])"
| "compile_format (c # d # r) =
     (if c = CHR ''%'' then
        (if d = CHR ''Y'' then DY else if d = CHR ''m'' then Dm else if d = CHR ''d'' then Dd
         else if d = CHR ''H'' then DH else if d = CHR ''M'' then DM else if d = CHR ''S'' then DS
         else DUnknown d) # compile_format r
      else if isspace c then
        (if isspace d then compile_format (d # r) else DSpace # compile_format (d # r))
      else DLit c # compile_format (d # r))"

text \<open>One alternative of a field: two characters, or one, or a space and one.\<close>

definition two_chars :: "(char \<Rightarrow> bool) \<Rightarrow> (char \<Rightarrow> bool) \<Rightarrow> string \<Rightarrow> (nat \<times> string) list" where
  "two_chars P Q s =
     (case s of
        a # b # r \<Rightarrow> if P a \<and> Q b then [(10 * digit_val a + digit_val b, r)] else []
      | _ \<Rightarrow> [])"

definition one_char :: "(char \<Rightarrow> bool) \<Rightarrow> string \<Rightarrow> (nat \<times> string) list" where
  "one_char P s = (case s of a # r \<Rightarrow> if P a then [(digit_val a, r)] else [] | _ \<Rightarrow> [])"

record fields =
  f_year :: nat
  f_month :: nat
  f_day :: nat
  f_hour :: nat
  f_minute :: nat
  f_second :: nat

definition match_directive :: "directive \<Rightarrow> fields \<Rightarrow> string \<Rightarrow> (fields \<times> string) list" where
  "match_directive d f s =
     (case d of
        DY \<Rightarrow> (if 4 \<le> length s \<and> list_all isdigit (take 4 s)
               then [(f\<lparr>f_year := nat_of_digits (take 4 s)\<rparr>, drop 4 s)] else [])
      | Dm \<Rightarrow> map (\<lambda>(v, r). (f\<lparr>f_month := v\<rparr>, r))
                (two_chars (\<lambda>c. c = CHR ''1'') (char_in CHR ''0'' CHR ''2'') s @
                 two_chars (\<lambda>c. c = CHR ''0'') (char_in CHR ''1'' CHR ''9'') s @
                 one_char (char_in CHR ''1'' CHR ''9'') s)
      | Dd \<Rightarrow> map (\<lambda>(v, r). (f\<lparr>f_day := v\<rparr>, r))
                (two_chars (\<lambda>c. c = CHR ''3'') (char_in CHR ''0'' CHR ''1'') s @
                 two_chars (char_in CHR ''1'' CHR ''2'') isdigit s @
                 two_chars (\<lambda>c. c = CHR ''0'') (char_in CHR ''1'' CHR ''9'') s @
                 one_char (char_in CHR ''1'' CHR ''9'') s @
                 (case s of a # r \<Rightarrow> if a = CHR '' '' then one_char (char_in CHR ''1'' CHR ''9'') r else []
                  | _ \<Rightarrow> []))
      | DH \<Rightarrow> map (\<lambda>(v, r). (f\<lparr>f_hour := v\<rparr>, r))
                (two_chars (\<lambda>c. c = CHR ''2'') (char_in CHR ''0'' CHR ''3'') s @
                 two_chars (char_in CHR ''0'' CHR ''1'') isdigit s @
                 one_char isdigit s)
      | DM \<Rightarrow> map (\<lambda>(v, r). (f\<lparr>f_minute := v\<rparr>, r))
                (two_chars (char_in CHR ''0'' CHR ''5'') isdigit s @ one_char isdigit s)
      | DS \<Rightarrow> map (\<lambda>(v, r). (f\<lparr>f_second := v\<rparr>, r))
                (two_chars (\<lambda>c. c = CHR ''6'') (char_in CHR ''0'' CHR ''1'') s @
                 two_chars (char_in CHR ''0'' CHR ''5'') isdigit s @
                 one_char isdigit s)
      | DSpace \<Rightarrow> map (\<lambda>k. (f, drop k s)) (rev [1..<Suc (length (takeWhile isspace s))])
      | DLit c \<Rightarrow> (case s of a # r \<Rightarrow> if lower_char a = lower_char c then [(f, r)] else [] | _ \<Rightarrow> [])
      | DUnknown c \<Rightarrow> [])"

fun match_directives :: "directive list \<Rightarrow> fields \<Rightarrow> string \<Rightarrow> (fields \<times> string) list" where
  "match_directives [] f s = [(f, s)]"
| "match_directives (d # ds) f s =
     concat (map (\<lambda>(f', r). match_directives ds f' r) (match_directive d f s))"

definition strptime :: "string \<Rightarrow> string \<Rightarrow> datetime option" where
  "strptime s fmt =
     (case match_directives (compile_format fmt)
             \<lparr>f_year = 1900, f_month = 1, f_day = 1, f_hour = 0, f_minute = 0, f_second = 0\<rparr> s of
        [] \<Rightarrow> None
      | (f, r) # _ \<Rightarrow>
          if r \<noteq> [] then None
          else mk_datetime (f_year f) (f_month f) (f_day f) (f_hour f) (f_minute f) (f_second f) 0 None)"


section \<open>The environment\<close>

text \<open>
  What the code takes from outside the repository, as one environment: the digest
  \<open>hashlib.sha256(s.encode("utf-8")).hexdigest()\<close> of a string, the \<open>version\<close> of
  \<open>ipaddress.ip_address(v)\<close> (\<open>None\<close> where it raises), \<open>datetime.fromisoformat\<close>
  (\<open>None\<close> where it raises; the strings it reads differ between the versions of the
  library), \<open>str\<close> of a \<open>float\<close>, the stamp
  \<open>datetime.utcnow().strftime("%Y%m%d_%H%M%S")\<close>, \<open>glob.glob\<close>, whether a parquet
  engine is installed, and the source files.  The code observes a source file through
  \<open>sha256_file\<close> and through \<open>openpyxl\<close>: a file is its digest and what
  \<open>load_workbook\<close> makes of it, the rows of cell values of its active sheet or the
  exception raised (\<open>zipfile.BadZipFile\<close> for bytes that are no archive), and two
  files with the same bytes are equal.
\<close>

datatype cell =
    CNone
  | CStr string
  | CBool bool
  | CInt int
  | CFloat pyfloat
  | CDatetime datetime
  | COther string

record xlsx_file =
  x_sha256 :: string
  x_sheet :: "py_error + cell list list"

record env =
  sha256_hexdigest :: "string \<Rightarrow> string"
  ip_address_version :: "string \<Rightarrow> nat option"
  fromisoformat :: "string \<Rightarrow> datetime option"
  float_str :: "pyfloat \<Rightarrow> string"
  utcnow_stamp :: string
  glob :: "string \<Rightarrow> string list"
  parquet_engine :: bool
  files :: "string \<Rightarrow> xlsx_file option"


section \<open>dq\_rules.py: the normalizer\<close>

text \<open>A raw row is a \<open>Dict[str, str]\<close>; \<open>raw.get(k)\<close> is application.\<close>

type_synonym raw_row = "string \<rightharpoonup> string"

text \<open>\<open>trim(s)\<close>: \<open>s.strip() if isinstance(s, str) else s\<close>.\<close>

definition trim :: "string option \<Rightarrow> string option" where
  "trim s = map_option strip s"

definition RAW_REQUIRED_COLS :: "string list" where
  "RAW_REQUIRED_COLS =
     [''Review Id'', ''Reviewer Id'', ''Business Id'', ''Review Rating'', ''Review Date'']"

definition DATE_PATTERNS :: "string list" where
  "DATE_PATTERNS =
     [''%Y-%m-%d'', ''%Y-%m-%d %H:%M:%S'', ''%d/%m/%Y'', ''%d/%m/%Y %H:%M:%S'', ''%m/%d/%Y'',
      ''%m/%d/%Y %H:%M:%S'', ''%Y-%m-%dT%H:%M:%S'', ''%Y-%m-%dT%H:%M:%SZ'', ''%Y-%m-%d %H:%M'']"

text \<open>
  \<open>re.sub(r'([+-]\d{2})(\d{2})$', r'\1:\2', s)\<close>: a sign and four digits at the end
  of the string, or before a newline that ends it, get a colon before the last two
  digits.
\<close>

fun tz_suffix :: "string \<Rightarrow> bool" where
  "tz_suffix [sg, a, b, c, d] =
     ((sg = CHR ''+'' \<or> sg = CHR ''-'') \<and> isdigit a \<and> isdigit b \<and> isdigit c \<and> isdigit d)"
| "tz_suffix _ = False"

definition normalize_tz :: "string \<Rightarrow> string" where
  "normalize_tz s =
     (let n = length s
      in if tz_suffix (drop (n - 5) s) then take (n - 2) s @ '':'' @ drop (n - 2) s
         else if s \<noteq> [] \<and> last s = CHR 0x0A \<and> tz_suffix (drop (n - 6) (butlast s))
           then take (n - 3) s @ '':'' @ drop (n - 3) s
         else s)"

text \<open>\<open>dt.replace(microsecond=0).isoformat().replace("+00:00", "Z")\<close>.\<close>

definition fmt_utc :: "datetime \<Rightarrow> string" where
  "fmt_utc dt = replace_all ''+00:00'' ''Z'' (isoformat (dt\<lparr>dt_microsecond := 0\<rparr>))"

text \<open>
  The body of \<open>parse_date_to_iso_utc\<close>, with the two library parsers as arguments:
  \<open>fromiso\<close> for \<open>datetime.fromisoformat\<close> and \<open>strp\<close> for \<open>datetime.strptime\<close>,
  each returning \<open>None\<close> where the library raises; the function itself takes the
  first from the environment.  Every exception of the fast path,
  also the \<open>OverflowError\<close> of \<open>astimezone\<close>, is caught and leads to the patterns.
\<close>

definition iso_fast_path :: "(string \<Rightarrow> datetime option) \<Rightarrow> string \<Rightarrow> string option" where
  "iso_fast_path fromiso s =
     (if endswith s ''Z'' then
        (case fromiso (butlast s) of
           None \<Rightarrow> None
         | Some dt \<Rightarrow> Some (fmt_utc (dt\<lparr>dt_tzinfo := Some 0\<rparr>)))
      else
        (case fromiso (normalize_tz s) of
           None \<Rightarrow> None
         | Some dt \<Rightarrow>
             (case dt_tzinfo dt of
                None \<Rightarrow> Some (fmt_utc (dt\<lparr>dt_tzinfo := Some 0\<rparr>))
              | Some off \<Rightarrow>
                  (case astimezone_utc dt off of
                     None \<Rightarrow> None
                   | Some dt' \<Rightarrow> Some (fmt_utc dt')))))"

fun try_patterns :: "(string \<Rightarrow> string \<Rightarrow> datetime option) \<Rightarrow> string \<Rightarrow> string list \<Rightarrow> string option" where
  "try_patterns strp s [] = None"
| "try_patterns strp s (pat # pats) =
     (case strp s pat of
        Some dt \<Rightarrow> Some (fmt_utc (dt\<lparr>dt_tzinfo := Some 0\<rparr>))
      | None \<Rightarrow> try_patterns strp s pats)"

definition parse_date_with ::
  "(string \<Rightarrow> datetime option) \<Rightarrow> (string \<Rightarrow> string \<Rightarrow> datetime option) \<Rightarrow> string \<Rightarrow> string option" where
  "parse_date_with fromiso strp s =
     (if s = [] then None
      else
        let s' = strip s
        in (case iso_fast_path fromiso s' of
              Some r \<Rightarrow> Some r
            | None \<Rightarrow> try_patterns strp s' DATE_PATTERNS))"

definition parse_date_to_iso_utc :: "env \<Rightarrow> string \<Rightarrow> string option" where
  "parse_date_to_iso_utc E s = parse_date_with (fromisoformat E) strptime s"

text \<open>
  The normalized row: a dictionary with twelve fixed keys, to which \<open>process_file\<close>
  adds the two lineage keys; \<open>n.get(k)\<close> is the field, \<open>None\<close> when the key is absent.
\<close>

record norm_row =
  user_id :: "string option"
  email_address :: "string option"
  user_name :: "string option"
  reviewer_country :: "string option"
  business_id :: "string option"
  business_name :: "string option"
  review_id :: "string option"
  review_date :: "string option"
  review_rating :: "int option"
  review_title :: "string option"
  review_content :: "string option"
  review_ip_address :: "string option"
  source_file :: "string option"
  source_row :: "int option"

definition rating_ok :: "int option \<Rightarrow> bool" where
  "rating_ok r = (case r of None \<Rightarrow> False | Some i \<Rightarrow> i \<in> {1, 2, 3, 4, 5})"

text \<open>
  \<open>validate_row\<close> in three parts: the list \<open>errors\<close> in the order of its
  \<open>append\<close> calls, the dictionary \<open>normalized\<close>, and the function itself, which first
  coerces the rating (an exception of \<open>coerce_int\<close> leaves the function) and parses the
  date.  \<open>raw.get("Review Rating", "")\<close> and \<open>raw.get("Review Date") or ""\<close> are
  written out.
\<close>

definition row_errors :: "raw_row \<Rightarrow> int option \<Rightarrow> string option \<Rightarrow> string list" where
  "row_errors raw rating review_date_iso =
     map (\<lambda>col. ''missing required column: '' @ col)
       (filter (\<lambda>col. raw col = None) RAW_REQUIRED_COLS) @
     (if \<not> truthy (trim (raw ''Review Id'')) then [''Review Id is null/empty''] else []) @
     (if \<not> truthy (trim (raw ''Reviewer Id'')) then [''Reviewer Id is null/empty''] else []) @
     (if \<not> truthy (trim (raw ''Business Id'')) then [''Business Id is null/empty''] else []) @
     (if \<not> rating_ok rating
      then [''Review Rating invalid: '' @ repr (raw ''Review Rating'')] else []) @
     (if \<not> truthy review_date_iso
      then [''Review Date unparsable: '' @ repr (raw ''Review Date'')] else []) @
     (if truthy (trim (raw ''Email Address'')) \<and> \<not> EMAIL_RE (the (trim (raw ''Email Address'')))
      then [''Email Address invalid: '' @ repr (trim (raw ''Email Address''))] else []) @
     (if truthy (trim (raw ''Review IP Address'')) \<and>
         \<not> IP_RE (the (trim (raw ''Review IP Address'')))
      then [''Review IP Address invalid: '' @ repr (trim (raw ''Review IP Address''))] else [])"

definition normalized_row :: "raw_row \<Rightarrow> int option \<Rightarrow> string option \<Rightarrow> norm_row" where
  "normalized_row raw rating review_date_iso =
     \<lparr>user_id = trim (raw ''Reviewer Id''),
      email_address =
        (if truthy (trim (raw ''Email Address'')) then trim (raw ''Email Address'') else None),
      user_name = trim (raw ''Reviewer Name''),
      reviewer_country = trim (raw ''Reviewer Country''),
      business_id = trim (raw ''Business Id''),
      business_name = trim (raw ''Business Name''),
      review_id = trim (raw ''Review Id''),
      review_date = review_date_iso,
      review_rating = rating,
      review_title = trim (raw ''Review Title''),
      review_content = trim (raw ''Review Content''),
      review_ip_address = trim (raw ''Review IP Address''),
      source_file = None,
      source_row = None\<rparr>"

definition validate_row :: "env \<Rightarrow> raw_row \<Rightarrow> py_error + (bool \<times> string list \<times> norm_row)" where
  "validate_row E raw =
     (case coerce_int (Some (case raw ''Review Rating'' of None \<Rightarrow> [] | Some v \<Rightarrow> v)) of
        Inl e \<Rightarrow> Inl e
      | Inr rating \<Rightarrow>
          let review_date_iso =
                parse_date_to_iso_utc E
                  (strip (if truthy (raw ''Review Date'') then the (raw ''Review Date'') else []));
              errors = row_errors raw rating review_date_iso
          in Inr (errors = [], errors, normalized_row raw rating review_date_iso))"


section \<open>dq\_rules.py: the batch deduplicator\<close>

definition dup_msg :: string where
  "dup_msg = ''Duplicate Review Id within file''"

text \<open>
  \<open>per_row_errors.setdefault(idx, []).append(msg)\<close> on a \<open>Dict[int, List[str]]\<close>.
\<close>

definition setdefault_append :: "(nat \<rightharpoonup> string list) \<Rightarrow> nat \<Rightarrow> string \<Rightarrow> (nat \<rightharpoonup> string list)" where
  "setdefault_append m k msg = m(k \<mapsto> (case m k of None \<Rightarrow> [] | Some l \<Rightarrow> l) @ [msg])"

text \<open>
  The loop of \<open>validate_batch\<close>: \<open>idx\<close> is the index that \<open>enumerate\<close> gives to
  the head of the remaining rows; \<open>seen\<close>, \<open>dups\<close> and \<open>per_row_errors\<close> are
  the three locals.
\<close>

fun validate_batch_loop ::
  "nat \<Rightarrow> raw_row list \<Rightarrow> string set \<Rightarrow> nat list \<Rightarrow> (nat \<rightharpoonup> string list)
     \<Rightarrow> nat list \<times> (nat \<rightharpoonup> string list)" where
  "validate_batch_loop idx [] seen dups per_row_errors = (dups, per_row_errors)"
| "validate_batch_loop idx (row # rows) seen dups per_row_errors =
     (case trim (row ''Review Id'') of
        None \<Rightarrow> validate_batch_loop (Suc idx) rows seen dups per_row_errors
      | Some rid \<Rightarrow>
          if rid = [] then validate_batch_loop (Suc idx) rows seen dups per_row_errors
          else if rid \<in> seen then
            validate_batch_loop (Suc idx) rows seen (dups @ [idx])
              (setdefault_append per_row_errors idx dup_msg)
          else validate_batch_loop (Suc idx) rows (insert rid seen) dups per_row_errors)"

definition validate_batch :: "raw_row list \<Rightarrow> nat list \<times> (nat \<rightharpoonup> string list)" where
  "validate_batch rows = validate_batch_loop 0 rows {} [] Map.empty"


text \<open>The rows that the scan flags, given the identifiers seen before the scan starts.\<close>

definition flagged :: "string set \<Rightarrow> raw_row list \<Rightarrow> nat \<Rightarrow> bool" where
  "flagged seen rows i =
     (case trim ((rows ! i) ''Review Id'') of
        None \<Rightarrow> False
      | Some r \<Rightarrow> r \<noteq> [] \<and> (r \<in> seen \<or> (\<exists>j<i. trim ((rows ! j) ''Review Id'') = Some r)))"

text \<open>The rows of \<open>test_validate_batch_detects_duplicate_review_ids\<close>.\<close>

definition dup_example_rows :: "raw_row list" where
  "dup_example_rows = [[''Review Id'' \<mapsto> ''dup-1''], [''Review Id'' \<mapsto> ''dup-1''],
              [''Review Id'' \<mapsto> ''unique''], [''Review Id'' \<mapsto> ''dup-1'']]"


section \<open>models.py: the tables\<close>

text \<open>
  A table is the list of its rows in insertion order.  A \<open>TEXT\<close> column is a
  \<open>string option\<close>, an \<open>INTEGER\<close> column an \<open>int option\<close>, and a column declared
  \<open>NOT NULL\<close> has the type without \<open>option\<close>: the statement that would store a
  \<open>NULL\<close> there fails instead.  A \<open>TEXT PRIMARY KEY\<close> is not \<open>NOT NULL\<close> in SQLite, and
  two \<open>NULL\<close> keys do not conflict.  The column \<open>loaded_at\<close> of \<open>load_audit\<close>, a
  reading of the clock, and the table \<open>metrics_summary\<close> are left out.
\<close>

record business_row =
  b_business_id :: "string option"
  b_business_name :: string
  b_first_review_date :: "string option"
  b_last_review_date :: "string option"
  b_total_reviews :: int

record user_row =
  u_user_id :: "string option"
  u_email_address :: "string option"
  u_email_hash :: "string option"
  u_user_name :: "string option"
  u_user_name_redacted :: "string option"
  u_reviewer_country :: "string option"
  u_first_review_date :: "string option"
  u_total_reviews :: int

record review_row =
  r_review_id :: "string option"
  r_user_id :: string
  r_business_id :: string
  r_review_date :: string
  r_review_rating :: int
  r_review_title :: "string option"
  r_review_content :: "string option"
  r_review_ip_address :: "string option"
  r_review_ip_redacted :: "string option"
  r_source_file :: "string option"
  r_source_row :: "int option"

record audit_row =
  a_file :: string
  a_sha256 :: string
  a_rows_in :: int
  a_rows_loaded :: int
  a_rows_rejected :: int
  a_dq_pass :: int
  a_dq_fail :: int

record db =
  business :: "business_row list"
  user :: "user_row list"
  review :: "review_row list"
  load_audit :: "audit_row list"

definition empty_db :: db where
  "empty_db = \<lparr>business = [], user = [], review = [], load_audit = []\<rparr>"

text \<open>The two views.\<close>

record public_row =
  pub_review_id :: "string option"
  pub_business_id :: string
  pub_user_id :: string
  pub_review_date :: string
  pub_review_rating :: int
  pub_review_title :: "string option"
  pub_review_content :: "string option"


definition v_reviews_public :: "db \<Rightarrow> public_row list" where
  "v_reviews_public d =
     map (\<lambda>r. \<lparr>pub_review_id = r_review_id r, pub_business_id = r_business_id r,
                pub_user_id = r_user_id r, pub_review_date = r_review_date r,
                pub_review_rating = r_review_rating r, pub_review_title = r_review_title r,
                pub_review_content = r_review_content r\<rparr>)
       (review d)"



section \<open>ingest.py\<close>

subsection \<open>Redaction\<close>

definition email_hash_value :: "env \<Rightarrow> string option \<Rightarrow> string option" where
  "email_hash_value E email =
     (case email of
        None \<Rightarrow> None
      | Some e \<Rightarrow> if e = [] then None else Some (sha256_hexdigest E (lower (strip e))))"

definition redact_name :: "string option \<Rightarrow> string option" where
  "redact_name name =
     (case name of
        None \<Rightarrow> None
      | Some s \<Rightarrow>
          if s = [] then None
          else (case strip s of [] \<Rightarrow> None | c # _ \<Rightarrow> Some (c # ''***'')))"

definition redact_ip :: "env \<Rightarrow> string option \<Rightarrow> string option" where
  "redact_ip E value =
     (case value of
        None \<Rightarrow> None
      | Some s \<Rightarrow>
          if s = [] then None
          else
            let v = strip s
            in (case ip_address_version E v of
                  None \<Rightarrow> Some ''REDACTED''
                | Some ver \<Rightarrow>
                    if ver = 4 then Some (join ''.'' (take 3 (split_on CHR ''.'' v) @ [''0'']))
                    else Some (join '':'' (butlast (split_on CHR '':'' v) @ [''0000'']))))"

subsection \<open>Upserts\<close>

text \<open>
  \<open>CASE WHEN cur IS NULL OR new < cur THEN new ELSE cur END\<close> and its mirror image; a
  comparison with \<open>NULL\<close> is not true.
\<close>

definition case_earlier :: "string option \<Rightarrow> string option \<Rightarrow> string option" where
  "case_earlier cur new =
     (case cur of
        None \<Rightarrow> new
      | Some c \<Rightarrow> (case new of None \<Rightarrow> cur | Some n \<Rightarrow> if n < c then new else cur))"

definition case_later :: "string option \<Rightarrow> string option \<Rightarrow> string option" where
  "case_later cur new =
     (case cur of
        None \<Rightarrow> new
      | Some c \<Rightarrow> (case new of None \<Rightarrow> cur | Some n \<Rightarrow> if c < n then new else cur))"

definition coalesce :: "'a option \<Rightarrow> 'a option \<Rightarrow> 'a option" where
  "coalesce a b = (case a of None \<Rightarrow> b | Some x \<Rightarrow> Some x)"

text \<open>
  SQLite checks \<open>NOT NULL\<close> before it looks for a conflict on the key, so a \<open>NULL\<close>
  name fails whether or not the business exists.
\<close>

definition upsert_business :: "db \<Rightarrow> norm_row \<Rightarrow> py_error + db" where
  "upsert_business d n =
     (case business_name n of
        None \<Rightarrow> Inl (IntegrityError ''NOT NULL constraint failed: business.business_name'')
      | Some name \<Rightarrow>
          if business_id n \<noteq> None \<and> business_id n \<in> set (map b_business_id (business d)) then
            Inr (d\<lparr>business :=
                   map (\<lambda>b. if b_business_id b = business_id n
                             then b\<lparr>b_business_name := name,
                                    b_first_review_date :=
                                      case_earlier (b_first_review_date b) (review_date n),
                                    b_last_review_date :=
                                      case_later (b_last_review_date b) (review_date n),
                                    b_total_reviews := b_total_reviews b + 1\<rparr>
                             else b)
                     (business d)\<rparr>)
          else
            Inr (d\<lparr>business := business d @
                   [\<lparr>b_business_id = business_id n, b_business_name = name,
                     b_first_review_date = review_date n, b_last_review_date = review_date n,
                     b_total_reviews = 1\<rparr>]\<rparr>))"

definition upsert_user :: "env \<Rightarrow> db \<Rightarrow> norm_row \<Rightarrow> db" where
  "upsert_user E d n =
     (if user_id n \<noteq> None \<and> user_id n \<in> set (map u_user_id (user d)) then
        d\<lparr>user :=
            map (\<lambda>u. if u_user_id u = user_id n
                      then u\<lparr>u_email_address := coalesce (email_address n) (u_email_address u),
                             u_email_hash :=
                               coalesce (email_hash_value E (email_address n)) (u_email_hash u),
                             u_user_name := coalesce (user_name n) (u_user_name u),
                             u_user_name_redacted :=
                               coalesce (redact_name (user_name n)) (u_user_name_redacted u),
                             u_reviewer_country :=
                               coalesce (reviewer_country n) (u_reviewer_country u),
                             u_first_review_date :=
                               case_earlier (u_first_review_date u) (review_date n),
                             u_total_reviews := u_total_reviews u + 1\<rparr>
                      else u)
              (user d)\<rparr>
      else
        d\<lparr>user := user d @
            [\<lparr>u_user_id = user_id n, u_email_address = email_address n,
              u_email_hash = email_hash_value E (email_address n),
              u_user_name = user_name n, u_user_name_redacted = redact_name (user_name n),
              u_reviewer_country = reviewer_country n, u_first_review_date = review_date n,
              u_total_reviews = 1\<rparr>]\<rparr>)"

text \<open>
  The review: the four \<open>NOT NULL\<close> columns first; then the conflict on \<open>review_id\<close>,
  whose update leaves \<open>user_id\<close> and \<open>business_id\<close> as they are; a new row needs its
  two parents (\<open>PRAGMA foreign_keys=ON\<close>).
\<close>

definition upsert_review :: "env \<Rightarrow> db \<Rightarrow> norm_row \<Rightarrow> py_error + db" where
  "upsert_review E d n =
     (case (user_id n, business_id n, review_date n, review_rating n) of
        (Some uid, Some bid, Some rdate, Some rating) \<Rightarrow>
          if review_id n \<noteq> None \<and> review_id n \<in> set (map r_review_id (review d)) then
            Inr (d\<lparr>review :=
                   map (\<lambda>r. if r_review_id r = review_id n
                             then r\<lparr>r_review_date := rdate,
                                    r_review_rating := rating,
                                    r_review_title := review_title n,
                                    r_review_content := review_content n,
                                    r_review_ip_address := review_ip_address n,
                                    r_review_ip_redacted := redact_ip E (review_ip_address n),
                                    r_source_file := source_file n,
                                    r_source_row := source_row n\<rparr>
                             else r)
                     (review d)\<rparr>)
          else if Some bid \<notin> set (map b_business_id (business d)) \<or>
                  Some uid \<notin> set (map u_user_id (user d))
            then Inl (IntegrityError ''FOREIGN KEY constraint failed'')
          else
            Inr (d\<lparr>review := review d @
                   [\<lparr>r_review_id = review_id n, r_user_id = uid, r_business_id = bid,
                     r_review_date = rdate, r_review_rating = rating,
                     r_review_title = review_title n, r_review_content = review_content n,
                     r_review_ip_address = review_ip_address n,
                     r_review_ip_redacted = redact_ip E (review_ip_address n),
                     r_source_file = source_file n, r_source_row = source_row n\<rparr>]\<rparr>)
      | (None, _, _, _) \<Rightarrow> Inl (IntegrityError ''NOT NULL constraint failed: review.user_id'')
      | (_, None, _, _) \<Rightarrow> Inl (IntegrityError ''NOT NULL constraint failed: review.business_id'')
      | (_, _, None, _) \<Rightarrow> Inl (IntegrityError ''NOT NULL constraint failed: review.review_date'')
      | (_, _, _, None) \<Rightarrow> Inl (IntegrityError ''NOT NULL constraint failed: review.review_rating''))"


definition RAW_GLOB_DEFAULTS :: "string list" where
  "RAW_GLOB_DEFAULTS = [''data/trustpilot_raw/*.xlsx'']"

definition STAGE_PATH_DEFAULT :: string where
  "STAGE_PATH_DEFAULT = ''data/stage/reviews.parquet''"

subsection \<open>Reading a workbook\<close>

text \<open>\<open>str(value)\<close> of a cell value; \<open>str\<close> of a \<open>datetime\<close> is \<open>isoformat(sep=' ')\<close>.\<close>

definition py_str :: "env \<Rightarrow> cell \<Rightarrow> string" where
  "py_str E c =
     (case c of
        CNone \<Rightarrow> ''None''
      | CStr s \<Rightarrow> s
      | CBool b \<Rightarrow> (if b then ''True'' else ''False'')
      | CInt i \<Rightarrow> str_of_int i
      | CFloat x \<Rightarrow> float_str E x
      | CDatetime dt \<Rightarrow> isoformat_sep CHR '' '' dt
      | COther s \<Rightarrow> s)"

text \<open>
  \<open>dt.strftime("%Y-%m-%dT%H:%M:%S")\<close>.  The C library prints \<open>%Y\<close> without padding
  (glibc: year 999 gives \<open>999\<close>); from the year 1000 on the year has four digits.
\<close>

definition strftime_seconds :: "datetime \<Rightarrow> string" where
  "strftime_seconds dt =
     str_of_nat (dt_year dt) @ ''-'' @ zero_pad 2 (dt_month dt) @ ''-'' @ zero_pad 2 (dt_day dt) @
     ''T'' @ zero_pad 2 (dt_hour dt) @ '':'' @ zero_pad 2 (dt_minute dt) @ '':'' @
     zero_pad 2 (dt_second dt)"

text \<open>
  The conversion of one cell in \<open>read_xlsx_rows\<close>.  A \<open>bool\<close> is an \<open>int\<close> in Python
  and takes the numeric branch, where it is no \<open>float\<close>.
\<close>

definition cell_to_str :: "env \<Rightarrow> cell \<Rightarrow> string" where
  "cell_to_str E c =
     (case c of
        CNone \<Rightarrow> []
      | CDatetime dt \<Rightarrow>
          (if dt_tzinfo dt \<noteq> None then strftime_seconds dt @ ''Z'' else strftime_seconds dt)
      | CInt i \<Rightarrow> py_str E c
      | CBool b \<Rightarrow> py_str E c
      | CFloat x \<Rightarrow>
          (case x of
             Finite q \<Rightarrow> if q = of_int \<lfloor>q\<rfloor> then str_of_int \<lfloor>q\<rfloor> else py_str E c
           | _ \<Rightarrow> py_str E c)
      | _ \<Rightarrow> py_str E c)"

text \<open>The loop over \<open>enumerate(row_values)\<close>, with its \<open>break\<close> past the header.\<close>

fun row_dict :: "env \<Rightarrow> string list \<Rightarrow> nat \<Rightarrow> cell list \<Rightarrow> raw_row \<Rightarrow> raw_row" where
  "row_dict E header col_idx [] d = d"
| "row_dict E header col_idx (c # cs) d =
     (if length header \<le> col_idx then d
      else row_dict E header (Suc col_idx) cs (d(header ! col_idx \<mapsto> cell_to_str E c)))"

definition read_xlsx_rows :: "env \<Rightarrow> string \<Rightarrow> py_error + (string list \<times> raw_row list)" where
  "read_xlsx_rows E path =
     (case files E path of
        None \<Rightarrow> Inl FileNotFoundError
      | Some f \<Rightarrow>
          (case x_sheet f of
             Inl e \<Rightarrow> Inl e
           | Inr [] \<Rightarrow> Inr ([], [])
           | Inr (header_row # data) \<Rightarrow>
               if header_row = [] then Inr ([], [])
               else
                 let header = map (\<lambda>c. if c = CNone then [] else strip (py_str E c)) header_row
                 in Inr (header, map (\<lambda>row_values. row_dict E header 0 row_values Map.empty) data)))"

subsection \<open>Paths and the quarantine artifact\<close>

text \<open>\<open>os.path.basename\<close> and the root of \<open>os.path.splitext\<close>, on POSIX paths.\<close>

definition basename :: "string \<Rightarrow> string" where
  "basename p = rev (takeWhile (\<lambda>c. c \<noteq> CHR ''/'') (rev p))"

definition dirname_slash :: "string \<Rightarrow> string" where
  "dirname_slash p = rev (dropWhile (\<lambda>c. c \<noteq> CHR ''/'') (rev p))"

definition splitext_root :: "string \<Rightarrow> string" where
  "splitext_root p =
     (let name = basename p;
          before_dot = dropWhile (\<lambda>c. c \<noteq> CHR ''.'') (rev name)
      in case before_dot of
           [] \<Rightarrow> p
         | _ # stem_rev \<Rightarrow>
             if list_ex (\<lambda>c. c \<noteq> CHR ''.'') stem_rev then dirname_slash p @ rev stem_rev else p)"

text \<open>
  The state that \<open>process_file\<close> works on: the database as the open connection sees
  it, and the quarantine artifacts on disk.  An artifact is the list of the rows that
  \<open>csv.writer\<close> is given, each a list of cells.
\<close>

record world =
  conn :: db
  artifacts :: "string \<rightharpoonup> string list list"

type_synonym bad_row = "nat \<times> raw_row \<times> string list"

definition QUARANTINE_DIR :: string where
  "QUARANTINE_DIR = ''data/quarantine''"

definition write_quarantine :: "env \<Rightarrow> string \<Rightarrow> string list \<Rightarrow> bad_row list \<Rightarrow> world \<Rightarrow> world" where
  "write_quarantine E stem header bad_rows w =
     (let out = QUARANTINE_DIR @ ''/'' @ stem @ ''_'' @ utcnow_stamp E @ ''_bad_rows.csv'';
          out_header = header @ [''__reason__'']
      in w\<lparr>artifacts := (artifacts w)(out \<mapsto>
            out_header #
            map (\<lambda>(_, raw_row, errs).
                   map (\<lambda>col. case raw_row col of None \<Rightarrow> [] | Some v \<Rightarrow> v) header @
                   [join ''; '' errs])
              bad_rows)\<rparr>)"

subsection \<open>\<open>process_file\<close>\<close>

text \<open>
  The first loop: \<open>xlsx_rownum\<close> counts from 2, the accumulator is \<open>rows_in\<close>,
  \<open>rows_rejected\<close>, \<open>dq_pass\<close>, \<open>dq_fail\<close>, \<open>bad_rows\<close> and \<open>good_norm\<close>.  An
  exception of \<open>validate_row\<close> leaves the loop and the function.
\<close>

type_synonym row_acc = "int \<times> int \<times> int \<times> int \<times> bad_row list \<times> norm_row list"

fun validate_rows :: "env \<Rightarrow> nat list \<Rightarrow> string \<Rightarrow> nat \<Rightarrow> raw_row list \<Rightarrow> row_acc \<Rightarrow> py_error + row_acc" where
  "validate_rows E dups base xlsx_rownum [] acc = Inr acc"
| "validate_rows E dups base xlsx_rownum (raw # rest)
       (rows_in, rows_rejected, dq_pass, dq_fail, bad_rows, good_norm) =
     (case validate_row E raw of
        Inl e \<Rightarrow> Inl e
      | Inr (is_ok, errs0, normalized) \<Rightarrow>
          let errs = (if xlsx_rownum - 2 \<in> set dups then errs0 @ [dup_msg] else errs0)
          in if is_ok \<and> errs = [] then
               validate_rows E dups base (Suc xlsx_rownum) rest
                 (rows_in + 1, rows_rejected, dq_pass + 1, dq_fail, bad_rows,
                  good_norm @ [normalized\<lparr>source_file := Some base,
                                     source_row := Some (int xlsx_rownum)\<rparr>])
             else
               validate_rows E dups base (Suc xlsx_rownum) rest
                 (rows_in + 1, rows_rejected + 1, dq_pass, dq_fail + 1,
                  bad_rows @ [(xlsx_rownum, raw, errs)], good_norm))"

text \<open>
  The second loop: the three upserts of each good row.  The database is returned as the
  failing statement leaves it: the rows upserted before it are in the open transaction.
\<close>

fun load_rows :: "env \<Rightarrow> norm_row list \<Rightarrow> db \<Rightarrow> int \<Rightarrow> (py_error + int) \<times> db" where
  "load_rows E [] d rows_loaded = (Inr rows_loaded, d)"
| "load_rows E (n # ns) d rows_loaded =
     (case upsert_business d n of
        Inl e \<Rightarrow> (Inl e, d)
      | Inr d1 \<Rightarrow>
          (case upsert_review E (upsert_user E d1 n) n of
             Inl e \<Rightarrow> (Inl e, upsert_user E d1 n)
           | Inr d3 \<Rightarrow> load_rows E ns d3 (rows_loaded + 1)))"

type_synonym stats = "int \<times> int \<times> int \<times> int \<times> int \<times> norm_row list"

definition audit_seen :: "db \<Rightarrow> string \<Rightarrow> string \<Rightarrow> bool" where
  "audit_seen d path file_hash = ((path, file_hash) \<in> set (map (\<lambda>a. (a_file a, a_sha256 a)) (load_audit d)))"

definition process_file :: "env \<Rightarrow> string \<Rightarrow> world \<Rightarrow> (py_error + stats) \<times> world" where
  "process_file E path w =
     (case files E path of
        None \<Rightarrow> (Inl FileNotFoundError, w)
      | Some f \<Rightarrow>
          let file_hash = x_sha256 f
          in if audit_seen (conn w) path file_hash then (Inr (0, 0, 0, 0, 0, []), w)
             else
               (case read_xlsx_rows E path of
                  Inl e \<Rightarrow> (Inl e, w)
                | Inr (header, raw_rows) \<Rightarrow>
                    (case validate_rows E (fst (validate_batch raw_rows)) (basename path) 2 raw_rows
                            (0, 0, 0, 0, [], []) of
                       Inl e \<Rightarrow> (Inl e, w)
                     | Inr (rows_in, rows_rejected, dq_pass, dq_fail, bad_rows, good_norm) \<Rightarrow>
                         let w1 = (if bad_rows \<noteq> []
                                   then write_quarantine E (splitext_root (basename path)) header bad_rows w
                                   else w)
                         in (case load_rows E good_norm (conn w1) 0 of
                               (Inl e, d) \<Rightarrow> (Inl e, w1\<lparr>conn := d\<rparr>)
                             | (Inr rows_loaded, d) \<Rightarrow>
                                 (Inr (rows_in, rows_loaded, rows_rejected, dq_pass, dq_fail, good_norm),
                                  w1\<lparr>conn := d\<lparr>load_audit := load_audit d @
                                       [\<lparr>a_file = path, a_sha256 = file_hash, a_rows_in = rows_in,
                                         a_rows_loaded = rows_loaded, a_rows_rejected = rows_rejected,
                                         a_dq_pass = dq_pass, a_dq_fail = dq_fail\<rparr>]\<rparr>\<rparr>)))))"

subsection \<open>\<open>build_stage_and_load\<close>\<close>

definition discover_files :: "env \<Rightarrow> string list \<Rightarrow> string list" where
  "discover_files E patterns = sort (remdups (concat (map (glob E) patterns)))"

text \<open>
  The loop over the files inside \<open>with connect() as conn\<close>: \<open>agg\<close> and \<open>stage_rows\<close>
  are the two accumulators.  An exception of \<open>process_file\<close> leaves the loop.
\<close>

type_synonym run_acc = "(int \<times> int \<times> int \<times> int \<times> int) \<times> norm_row list"

fun process_files :: "env \<Rightarrow> string list \<Rightarrow> world \<Rightarrow> run_acc \<Rightarrow> (py_error + run_acc) \<times> world" where
  "process_files E [] w acc = (Inr acc, w)"
| "process_files E (path # paths) w ((a0, a1, a2, a3, a4), stage_rows) =
     (case process_file E path w of
        (Inl e, w') \<Rightarrow> (Inl e, w')
      | (Inr (r_in, r_loaded, r_rej, r_pass, r_fail, good_norm), w') \<Rightarrow>
          process_files E paths w'
            ((a0 + r_in, a1 + r_loaded, a2 + r_rej, a3 + r_pass, a4 + r_fail), stage_rows @ good_norm))"

text \<open>
  What is on disk: the committed database, the quarantine artifacts and the stage
  files.  \<open>connect\<close> commits when its block ends normally; when the block raises, the
  connection is closed without a commit and the open transaction, which began with the
  first \<open>INSERT\<close> of the run, is rolled back.  \<open>init_db\<close> creates what is missing and
  changes no row.
\<close>

record disk =
  database :: db
  quarantine :: "string \<rightharpoonup> string list list"
  stage :: "string \<rightharpoonup> norm_row list"

definition write_stage_parquet :: "env \<Rightarrow> norm_row list \<Rightarrow> string \<Rightarrow> disk \<Rightarrow> string \<times> disk" where
  "write_stage_parquet E normalized_rows stage_path dk =
     (if parquet_engine E then (stage_path, dk\<lparr>stage := (stage dk)(stage_path \<mapsto> normalized_rows)\<rparr>)
      else
        let fallback = splitext_root stage_path @ ''.csv''
        in (fallback, dk\<lparr>stage := (stage dk)(fallback \<mapsto> normalized_rows)\<rparr>))"

type_synonym run_result = "nat \<times> int \<times> int \<times> int \<times> int \<times> int \<times> nat \<times> string"

definition build_stage_and_load :: "env \<Rightarrow> string list \<Rightarrow> string \<Rightarrow> disk \<Rightarrow> (py_error + run_result) \<times> disk" where
  "build_stage_and_load E patterns stage_path dk =
     (let fs = discover_files E patterns
      in case process_files E fs \<lparr>conn = database dk, artifacts = quarantine dk\<rparr>
                ((0, 0, 0, 0, 0), []) of
           (Inl e, w) \<Rightarrow> (Inl e, dk\<lparr>quarantine := artifacts w\<rparr>)
         | (Inr ((a0, a1, a2, a3, a4), stage_rows), w) \<Rightarrow>
             let dk1 = dk\<lparr>database := conn w, quarantine := artifacts w\<rparr>
             in if stage_rows \<noteq> [] then
                  (case write_stage_parquet E stage_rows stage_path dk1 of
                     (used, dk2) \<Rightarrow> (Inr (length fs, a0, a1, a2, a3, a4, length stage_rows, used), dk2))
                else (Inr (length fs, a0, a1, a2, a3, a4, 0, []), dk1))"


section \<open>Harnesses for the claims\<close>

text \<open>
  A sequence of \<open>upsert_business\<close> calls on one connection, which ends at the first call
  that raises; and the rows that the table \<open>business\<close> holds for one identifier.
\<close>

fun upsert_business_seq :: "db \<Rightarrow> norm_row list \<Rightarrow> py_error + db" where
  "upsert_business_seq d [] = Inr d"
| "upsert_business_seq d (n # ns) =
     (case upsert_business d n of Inl e \<Rightarrow> Inl e | Inr d' \<Rightarrow> upsert_business_seq d' ns)"

definition business_rows_of :: "db \<Rightarrow> string \<Rightarrow> business_row list" where
  "business_rows_of d b = filter (\<lambda>r. b_business_id r = Some b) (business d)"

text \<open>A normalized review of business \<open>b-1\<close>, for the examples.\<close>

definition review_of_business :: "string \<Rightarrow> string \<Rightarrow> norm_row" where
  "review_of_business rid rdate =
     \<lparr>user_id = Some ''u-1'', email_address = None, user_name = None, reviewer_country = None,
      business_id = Some ''b-1'', business_name = Some ''Widgets Inc'', review_id = Some rid,
      review_date = Some rdate, review_rating = Some 5, review_title = None,
      review_content = None, review_ip_address = None, source_file = None, source_row = None\<rparr>"


text \<open>The review row that \<open>upsert_review\<close> inserts for a normalized row.\<close>

definition review_of :: "env \<Rightarrow> norm_row \<Rightarrow> review_row" where
  "review_of E n =
     \<lparr>r_review_id = review_id n, r_user_id = the (user_id n), r_business_id = the (business_id n),
      r_review_date = the (review_date n), r_review_rating = the (review_rating n),
      r_review_title = review_title n, r_review_content = review_content n,
      r_review_ip_address = review_ip_address n,
      r_review_ip_redacted = redact_ip E (review_ip_address n),
      r_source_file = source_file n, r_source_row = source_row n\<rparr>"


text \<open>
  The workbook of \<open>test_process_file_handles_duplicates_and_audits\<close>: row 2 is fully
  valid; row 3 repeats its review identifier and has an invalid email and an invalid
  IP address.  The environment of the examples gives the library's values on the
  arguments that the examples reach.
\<close>

definition sample_header :: "string list" where
  "sample_header =
     [''Review Id'', ''Reviewer Id'', ''Business Id'', ''Review Rating'', ''Review Date'',
      ''Review Title'', ''Review Content'', ''Email Address'', ''Review IP Address'',
      ''Reviewer Name'', ''Reviewer Country'', ''Business Name'']"

definition sample_sheet :: "cell list list" where
  "sample_sheet =
     [map CStr sample_header,
      map CStr [''r-1'', ''u-1'', ''b-1'', ''5'', ''2024-01-01T12:00:00Z'', ''Great'', ''Loved it'',
                ''user@example.com'', ''1.2.3.4'', ''Alice'', ''GB'', ''Widgets Inc''],
      [CStr ''r-1'', CStr ''u-2'', CStr ''b-1'', CStr ''4'', CStr ''2024-01-02'', CNone, CNone,
       CStr ''bad-email'', CStr ''not-an-ip'']]"

definition sample_file :: xlsx_file where
  "sample_file =
     \<lparr>x_sha256 = ''4097889236a2af26c293033feb964c4cf118c0224e0d063fec0a89e9d0569ef2'',
      x_sheet = Inr sample_sheet\<rparr>"

definition sample_env :: "(string \<rightharpoonup> xlsx_file) \<Rightarrow> env" where
  "sample_env fs =
     \<lparr>sha256_hexdigest =
        (\<lambda>s. if s = ''user@example.com''
              then ''b4c9a289323b21a01c3e940f150eb9b8c542587f1abfd8f0e1cc1ffc5e475514'' else []),
      ip_address_version = (\<lambda>s. if s = ''1.2.3.4'' then Some 4 else None),
      fromisoformat = basic_fromisoformat,
      float_str = (\<lambda>x. if x = Finite (3 / 2) then ''1.5'' else []),
      utcnow_stamp = ''20240101_120000'',
      glob = (\<lambda>pat. if pat = ''data/trustpilot_raw/*.xlsx''
                     then filter (\<lambda>p. fs p \<noteq> None)
                            [''data/trustpilot_raw/a.xlsx'', ''data/trustpilot_raw/b.xlsx'',
                             ''data/trustpilot_raw/c.xlsx'']
                     else []),
      parquet_engine = False,
      files = fs\<rparr>"

definition empty_world :: world where
  "empty_world = \<lparr>conn = empty_db, artifacts = Map.empty\<rparr>"

definition empty_disk :: disk where
  "empty_disk = \<lparr>database = empty_db, quarantine = Map.empty, stage = Map.empty\<rparr>"

text \<open>The two data rows as \<open>read_xlsx_rows\<close> returns them, and the good row normalized.\<close>

definition sample_row1 :: raw_row where
  "sample_row1 =
     [''Review Id'' \<mapsto> ''r-1'', ''Reviewer Id'' \<mapsto> ''u-1'', ''Business Id'' \<mapsto> ''b-1'',
      ''Review Rating'' \<mapsto> ''5'', ''Review Date'' \<mapsto> ''2024-01-01T12:00:00Z'',
      ''Review Title'' \<mapsto> ''Great'', ''Review Content'' \<mapsto> ''Loved it'',
      ''Email Address'' \<mapsto> ''user@example.com'', ''Review IP Address'' \<mapsto> ''1.2.3.4'',
      ''Reviewer Name'' \<mapsto> ''Alice'', ''Reviewer Country'' \<mapsto> ''GB'',
      ''Business Name'' \<mapsto> ''Widgets Inc'']"

definition sample_row2 :: raw_row where
  "sample_row2 =
     [''Review Id'' \<mapsto> ''r-1'', ''Reviewer Id'' \<mapsto> ''u-2'', ''Business Id'' \<mapsto> ''b-1'',
      ''Review Rating'' \<mapsto> ''4'', ''Review Date'' \<mapsto> ''2024-01-02'',
      ''Review Title'' \<mapsto> [], ''Review Content'' \<mapsto> [],
      ''Email Address'' \<mapsto> ''bad-email'', ''Review IP Address'' \<mapsto> ''not-an-ip'']"

definition sample_norm1 :: norm_row where
  "sample_norm1 =
     \<lparr>user_id = Some ''u-1'', email_address = Some ''user@example.com'',
      user_name = Some ''Alice'', reviewer_country = Some ''GB'', business_id = Some ''b-1'',
      business_name = Some ''Widgets Inc'', review_id = Some ''r-1'',
      review_date = Some ''2024-01-01T12:00:00Z'', review_rating = Some 5,
      review_title = Some ''Great'', review_content = Some ''Loved it'',
      review_ip_address = Some ''1.2.3.4'', source_file = None, source_row = None\<rparr>"


definition sample_norm2 :: norm_row where
  "sample_norm2 =
     \<lparr>user_id = Some ''u-2'', email_address = Some ''bad-email'', user_name = None,
      reviewer_country = None, business_id = Some ''b-1'', business_name = None,
      review_id = Some ''r-1'', review_date = Some ''2024-01-02T00:00:00Z'',
      review_rating = Some 4, review_title = Some [], review_content = Some [],
      review_ip_address = Some ''not-an-ip'', source_file = None, source_row = None\<rparr>"


definition sample_path :: string where
  "sample_path = ''data/trustpilot_raw/a.xlsx''"


text \<open>
  Two copies of the workbook under two paths, and the database after the first copy has
  been processed on an empty one.
\<close>

definition path_a :: string where "path_a = ''data/trustpilot_raw/a.xlsx''"
definition path_b :: string where "path_b = ''data/trustpilot_raw/b.xlsx''"

definition two_copies :: "string \<rightharpoonup> xlsx_file" where
  "two_copies = [path_a \<mapsto> sample_file, path_b \<mapsto> sample_file]"


definition db_after_a :: db where
  "db_after_a =
     \<lparr>business =
        [\<lparr>b_business_id = Some ''b-1'', b_business_name = ''Widgets Inc'',
          b_first_review_date = Some ''2024-01-01T12:00:00Z'',
          b_last_review_date = Some ''2024-01-01T12:00:00Z'', b_total_reviews = 1\<rparr>],
      user =
        [\<lparr>u_user_id = Some ''u-1'', u_email_address = Some ''user@example.com'',
          u_email_hash = Some ''b4c9a289323b21a01c3e940f150eb9b8c542587f1abfd8f0e1cc1ffc5e475514'',
          u_user_name = Some ''Alice'', u_user_name_redacted = Some ''A***'',
          u_reviewer_country = Some ''GB'', u_first_review_date = Some ''2024-01-01T12:00:00Z'',
          u_total_reviews = 1\<rparr>],
      review =
        [\<lparr>r_review_id = Some ''r-1'', r_user_id = ''u-1'', r_business_id = ''b-1'',
          r_review_date = ''2024-01-01T12:00:00Z'', r_review_rating = 5,
          r_review_title = Some ''Great'', r_review_content = Some ''Loved it'',
          r_review_ip_address = Some ''1.2.3.4'', r_review_ip_redacted = Some ''1.2.3.0'',
          r_source_file = Some ''a.xlsx'', r_source_row = Some 2\<rparr>],
      load_audit =
        [\<lparr>a_file = path_a,
          a_sha256 = ''4097889236a2af26c293033feb964c4cf118c0224e0d063fec0a89e9d0569ef2'',
          a_rows_in = 2, a_rows_loaded = 1, a_rows_rejected = 1, a_dq_pass = 1, a_dq_fail = 1\<rparr>]\<rparr>"


definition world_after_a :: world where
  "world_after_a = snd (process_file (sample_env two_copies) path_a empty_world)"


text \<open>The quarantine artifact of the workbook.\<close>

definition sample_quarantine_rows :: "string list list" where
  "sample_quarantine_rows =
     [sample_header @ [''__reason__''],
      [''r-1'', ''u-2'', ''b-1'', ''4'', ''2024-01-02'', [], [], ''bad-email'', ''not-an-ip'',
       [], [], [],
       ''Email Address invalid: '' @ [CHR 0x27] @ ''bad-email'' @ [CHR 0x27] @ ''; '' @
       ''Review IP Address invalid: '' @ [CHR 0x27] @ ''not-an-ip'' @ [CHR 0x27] @ ''; '' @
       ''Duplicate Review Id within file'']]"


text \<open>
  A file that \<open>openpyxl\<close> cannot load (its bytes are no archive), next to the
  workbook; and the workbook alone.
\<close>

definition corrupt_file :: xlsx_file where
  "corrupt_file =
     \<lparr>x_sha256 = ''2f66dc481a54c04e20e01bf7a084eb9f2b95f856219a0f1607b9df45294cc47c'',
      x_sheet = Inl BadZipFile\<rparr>"

definition good_then_corrupt :: "string \<rightharpoonup> xlsx_file" where
  "good_then_corrupt = [path_a \<mapsto> sample_file, path_b \<mapsto> corrupt_file]"


definition only_a :: "string \<rightharpoonup> xlsx_file" where
  "only_a = [path_a \<mapsto> sample_file]"


text \<open>
  A workbook with the five required columns only, and one whose \<open>Business Name\<close> cell is
  empty; their data rows as \<open>read_xlsx_rows\<close> returns them, and the normalized row.
\<close>

definition required_header :: "string list" where
  "required_header = [''Review Id'', ''Reviewer Id'', ''Business Id'', ''Review Rating'', ''Review Date'']"

definition no_name_file :: xlsx_file where
  "no_name_file =
     \<lparr>x_sha256 = ''f208e82414ce8f6532575e32a59413154cd94f2b64f219c8f98970d3e18b6af1'',
      x_sheet = Inr [map CStr required_header,
                      map CStr [''r-1'', ''u-1'', ''b-1'', ''5'', ''2024-01-01T12:00:00Z'']]\<rparr>"

definition no_name_row :: raw_row where
  "no_name_row =
     [''Review Id'' \<mapsto> ''r-1'', ''Reviewer Id'' \<mapsto> ''u-1'', ''Business Id'' \<mapsto> ''b-1'',
      ''Review Rating'' \<mapsto> ''5'', ''Review Date'' \<mapsto> ''2024-01-01T12:00:00Z'']"

definition bare_norm :: "string option \<Rightarrow> norm_row" where
  "bare_norm name =
     \<lparr>user_id = Some ''u-1'', email_address = None, user_name = None, reviewer_country = None,
      business_id = Some ''b-1'', business_name = name, review_id = Some ''r-1'',
      review_date = Some ''2024-01-01T12:00:00Z'', review_rating = Some 5, review_title = None,
      review_content = None, review_ip_address = None, source_file = None, source_row = None\<rparr>"

definition empty_name_file :: xlsx_file where
  "empty_name_file =
     \<lparr>x_sha256 = ''ceaed282794887054003a17e93882a0e0dc1fd828eb58d2a798484ea9e59ce6a'',
      x_sheet = Inr [map CStr (required_header @ [''Business Name'']),
                      [CStr ''r-1'', CStr ''u-1'', CStr ''b-1'', CStr ''5'',
                       CStr ''2024-01-01T12:00:00Z'', CNone]]\<rparr>"

definition empty_name_row :: raw_row where
  "empty_name_row = no_name_row(''Business Name'' \<mapsto> [])"


section \<open>Shapes of date strings\<close>

text \<open>
  \<open>digits n s\<close>: \<open>s\<close> is \<open>n\<close> decimal digits.  \<open>iso_seconds_shape\<close> is the shape
  \<open>YYYY-MM-DDTHH:MM:SS\<close> and \<open>iso_utc_shape\<close> the shape \<open>YYYY-MM-DDTHH:MM:SSZ\<close>.
\<close>

definition digits :: "nat \<Rightarrow> string \<Rightarrow> bool" where
  "digits n s = (length s = n \<and> list_all isdigit s)"







section \<open>Reachable states and the private view\<close>











section \<open>The batch deduplicator\<close>

lemma filter_upt_Suc:
  "filter P [0..<Suc n] = (if P 0 then [0] else []) @ map Suc (filter (P \<circ> Suc) [0..<n])"
proof -
  have "[0..<Suc n] = 0 # map Suc [0..<n]"
    by (simp add: upt_conv_Cons map_Suc_upt del: upt_Suc)
  then show ?thesis by (simp add: filter_map del: upt_Suc)
qed

lemma flagged_Suc_skip:
  "\<not> truthy (trim (row ''Review Id'')) \<Longrightarrow> flagged seen (row # rows) (Suc i) = flagged seen rows i"
  apply (cases "trim (row ''Review Id'')")
  apply (auto simp: flagged_def less_Suc_eq_0_disj split: option.splits)
  done

lemma flagged_Suc_key:
  "trim (row ''Review Id'') = Some r \<Longrightarrow> r \<noteq> [] \<Longrightarrow>
   flagged seen (row # rows) (Suc i) = flagged (insert r seen) rows i"
  by (auto simp: flagged_def less_Suc_eq_0_disj split: option.splits)

lemma flagged_0:
  "flagged seen (row # rows) 0 = (case trim (row ''Review Id'') of None \<Rightarrow> False | Some r \<Rightarrow> r \<noteq> [] \<and> r \<in> seen)"
  by (simp add: flagged_def split: option.splits)

lemma loop_dups:
  "fst (validate_batch_loop idx rows seen dups errs) =
     dups @ map (\<lambda>i. idx + i) (filter (flagged seen rows) [0..<length rows])"
proof (induction rows arbitrary: idx seen dups errs)
  case Nil
  show ?case by simp
next
  case (Cons row rows)
  show ?case
  proof (cases "trim (row ''Review Id'')")
    case None
    then have sk: "\<not> truthy (trim (row ''Review Id''))" by simp
    show ?thesis
      using None Cons.IH[of "Suc idx" seen dups errs]
      by (simp add: filter_upt_Suc flagged_0 comp_def flagged_Suc_skip[of row, OF sk] del: upt_Suc)
  next
    case (Some r)
    show ?thesis
    proof (cases "r = []")
      case True
      with Some have sk: "\<not> truthy (trim (row ''Review Id''))" by simp
      show ?thesis
        using Some True Cons.IH[of "Suc idx" seen dups errs]
        by (simp add: filter_upt_Suc flagged_0 comp_def flagged_Suc_skip[of row, OF sk] del: upt_Suc)
    next
      case False
      have ins: "r \<in> seen \<Longrightarrow> insert r seen = seen" by auto
      show ?thesis
        using Some False Cons.IH[of "Suc idx" seen "dups @ [idx]" "setdefault_append errs idx dup_msg"]
          Cons.IH[of "Suc idx" "insert r seen" dups errs]
        by (auto simp add: filter_upt_Suc flagged_0 comp_def flagged_Suc_key[of row, OF Some False] ins simp del: upt_Suc)
    qed
  qed
qed


lemma sda_apply:
  "setdefault_append m i msg k =
     (if k = i then Some ((case m i of None \<Rightarrow> [] | Some l \<Rightarrow> l) @ [msg]) else m k)"
  by (simp add: setdefault_append_def)

lemma loop_errs:
  "snd (validate_batch_loop idx rows seen dups errs) k =
     (if \<exists>i<length rows. flagged seen rows i \<and> k = idx + i
      then Some ((case errs k of None \<Rightarrow> [] | Some l \<Rightarrow> l) @ [dup_msg])
      else errs k)"
proof (induction rows arbitrary: idx seen dups errs)
  case Nil
  show ?case by simp
next
  case (Cons row rows)
  have ex_Suc: "\<And>P. (\<exists>i<Suc (length rows). P i) = (P 0 \<or> (\<exists>i<length rows. P (Suc i)))"
    by (auto simp: less_Suc_eq_0_disj)
  show ?case
  proof (cases "trim (row ''Review Id'')")
    case None
    then have sk: "\<not> truthy (trim (row ''Review Id''))" by simp
    show ?thesis
      using None Cons.IH[of "Suc idx" seen dups errs]
      by (simp add: ex_Suc flagged_0 flagged_Suc_skip[of row, OF sk])
  next
    case (Some r)
    show ?thesis
    proof (cases "r = []")
      case True
      with Some have sk: "\<not> truthy (trim (row ''Review Id''))" by simp
      show ?thesis
        using Some True Cons.IH[of "Suc idx" seen dups errs]
        by (simp add: ex_Suc flagged_0 flagged_Suc_skip[of row, OF sk])
    next
      case False
      have ins: "r \<in> seen \<Longrightarrow> insert r seen = seen" by auto
      show ?thesis
      proof (cases "r \<in> seen")
        case True
        define errs' where "errs' = setdefault_append errs idx dup_msg"
        have e': "errs' k =
            (if k = idx then Some ((case errs idx of None \<Rightarrow> [] | Some l \<Rightarrow> l) @ [dup_msg])
             else errs k)"
          by (simp add: errs'_def sda_apply)
        have step: "validate_batch_loop idx (row # rows) seen dups errs =
            validate_batch_loop (Suc idx) rows seen (dups @ [idx]) errs'"
          using Some False True by (simp add: errs'_def)
        have fl: "\<And>i. flagged seen (row # rows) (Suc i) = flagged seen rows i"
          using True by (simp add: flagged_Suc_key[of row, OF Some False] ins)
        have f0: "flagged seen (row # rows) 0"
          using Some False True by (simp add: flagged_0)
        show ?thesis
          unfolding step Cons.IH[of "Suc idx" seen "dups @ [idx]" errs'] e'
          by (cases "k = idx") (auto simp add: ex_Suc fl f0)
      next
        case notin: False
        show ?thesis
          using Some False notin Cons.IH[of "Suc idx" "insert r seen" dups errs]
          by (auto simp add: ex_Suc flagged_0 flagged_Suc_key[of row, OF Some False])
      qed
    qed
  qed
qed

lemma flagged_empty:
  "flagged {} rows i =
     (truthy (trim ((rows ! i) ''Review Id'')) \<and>
      (\<exists>j<i. trim ((rows ! j) ''Review Id'') = trim ((rows ! i) ''Review Id'')))"
  by (cases "trim ((rows ! i) ''Review Id'')") (auto simp: flagged_def)

text \<open>
  Claim C7.  For every list of rows, \<open>validate_batch\<close> returns as duplicate indices
  exactly the zero-based positions, in scan order, of the rows whose trimmed review
  identifier is non-empty and already occurred at an earlier position; the error map holds
  the single duplicate message for each of these positions and nothing for any other.  So a
  first occurrence and a row with an empty or absent identifier are never flagged.
\<close>

theorem validate_batch_flags_later_occurrences:
  "fst (validate_batch rows) =
     filter (\<lambda>i. truthy (trim ((rows ! i) ''Review Id'')) \<and>
                 (\<exists>j<i. trim ((rows ! j) ''Review Id'') = trim ((rows ! i) ''Review Id'')))
       [0..<length rows]
   \<and> snd (validate_batch rows) k =
       (if k \<in> set (fst (validate_batch rows)) then Some [dup_msg] else None)"
proof -
  have d: "fst (validate_batch rows) = filter (flagged {} rows) [0..<length rows]"
    by (simp add: validate_batch_def loop_dups)
  have e: "snd (validate_batch rows) k =
       (if k < length rows \<and> flagged {} rows k then Some [dup_msg] else None)"
    by (simp add: validate_batch_def loop_errs)
  have m: "k \<in> set (fst (validate_batch rows)) \<longleftrightarrow> k < length rows \<and> flagged {} rows k"
    by (auto simp: d)
  show ?thesis
    unfolding e m unfolding d by (simp add: flagged_empty cong: filter_cong)
qed

lemma strip_simps: "strip ''dup-1'' = ''dup-1''" "strip ''unique'' = ''unique''"
  by (simp_all add: strip_def isspace_def)

text \<open>The example of the claim: identifiers \<open>dup-1, dup-1, unique, dup-1\<close> give \<open>[1, 3]\<close>.\<close>

theorem validate_batch_flags_later_occurrences_witness:
  "fst (validate_batch dup_example_rows) = [1, 3] \<and> snd (validate_batch dup_example_rows) 1 = Some [dup_msg]
     \<and> snd (validate_batch dup_example_rows) 3 = Some [dup_msg] \<and> snd (validate_batch dup_example_rows) 0 = None"
proof -
  have f: "fst (validate_batch dup_example_rows) = [1, 3]"
    by (simp add: validate_batch_def dup_example_rows_def trim_def strip_def isspace_def)
  show ?thesis
    using validate_batch_flags_later_occurrences[of dup_example_rows 1, THEN conjunct2]
      validate_batch_flags_later_occurrences[of dup_example_rows 3, THEN conjunct2]
      validate_batch_flags_later_occurrences[of dup_example_rows 0, THEN conjunct2]
    by (simp add: f)
qed


section \<open>Evaluation on the examples\<close>

text \<open>The definitions that the simplifier unfolds to run the model on a literal.\<close>

lemmas str_defs = isspace_def strip_def isdigit_def digit_val_def digit_char_def nat_of_digits_def
  ishex_def zero_pad_def endswith_def lower_def lower_char_def char_in_def char_of_eq_iff
  str_of_nat.simps
lemmas dt_defs = is_leap_def days_in_month_def valid_date_def valid_offset_def valid_datetime_def
  mk_datetime_def format_offset_def isoformat_sep_def isoformat_def prev_day_def next_day_def
  astimezone_utc_def parse_digits_def parse_hh_mm_ss_ff_def parse_isoformat_time_def
  basic_fromisoformat_def two_chars_def one_char_def match_directive_def strptime_def
  normalize_tz_def fmt_utc_def iso_fast_path_def parse_date_with_def parse_date_to_iso_utc_def
  DATE_PATTERNS_def
lemmas float_defs = py_float_def split_sign_def floatnumber_def digitpart_def float_exponent_def
  to_double_def floor_log2_def round_half_even_def pow2_def pow10_def bit_length.simps
  py_int_def coerce_int_def
lemmas re_defs = re_dollar_def email_atom_def email_body_def EMAIL_RE_def ipv4_body_def
  ipv6_body_def IP_RE_def
lemmas repr_defs = hex_char_def isprintable_def repr_char_def repr_str_def Let_def
lemmas row_defs = validate_row_def row_errors_def normalized_row_def trim_def
  RAW_REQUIRED_COLS_def rating_ok_def

lemma coerce_int_5: "coerce_int (Some ''5'') = Inr (Some 5)"
  by (simp add: float_defs str_defs)

lemma coerce_int_4: "coerce_int (Some ''4'') = Inr (Some 4)"
  by (simp add: float_defs str_defs)

lemma parse_date_sample1:
  "parse_date_to_iso_utc (sample_env fs) ''2024-01-01T12:00:00Z'' = Some ''2024-01-01T12:00:00Z''"
  by (simp add: sample_env_def str_defs dt_defs)

lemma parse_date_sample2:
  "parse_date_to_iso_utc (sample_env fs) ''2024-01-02'' = Some ''2024-01-02T00:00:00Z''"
  by (simp add: sample_env_def str_defs dt_defs)

lemma EMAIL_RE_sample: "EMAIL_RE ''user@example.com''" "\<not> EMAIL_RE ''bad-email''"
  by (simp_all add: re_defs str_defs)

lemma IP_RE_sample: "IP_RE ''1.2.3.4''" "\<not> IP_RE ''not-an-ip''"
  by (simp_all add: re_defs str_defs)

lemma validate_sample_row1: "validate_row (sample_env fs) sample_row1 = Inr (True, [], sample_norm1)"
  by (simp add: row_defs sample_row1_def sample_norm1_def coerce_int_5 parse_date_sample1
      EMAIL_RE_sample IP_RE_sample str_defs)

lemma validate_sample_row2:
  "validate_row (sample_env fs) sample_row2 =
     Inr (False, [''Email Address invalid: '' @ [CHR 0x27] @ ''bad-email'' @ [CHR 0x27],
                  ''Review IP Address invalid: '' @ [CHR 0x27] @ ''not-an-ip'' @ [CHR 0x27]],
          sample_norm2)"
  by (simp add: row_defs sample_row2_def sample_norm2_def coerce_int_4 parse_date_sample2
      EMAIL_RE_sample IP_RE_sample str_defs repr_defs)

lemma read_sample:
  "fs p = Some sample_file \<Longrightarrow>
   read_xlsx_rows (sample_env fs) p = Inr (sample_header, [sample_row1, sample_row2])"
  by (simp add: read_xlsx_rows_def sample_env_def sample_file_def sample_sheet_def
      sample_header_def sample_row1_def sample_row2_def cell_to_str_def py_str_def str_defs)


lemma basename_sample: "basename sample_path = ''a.xlsx''" "splitext_root ''a.xlsx'' = ''a''"
  by (simp_all add: basename_def splitext_root_def dirname_slash_def sample_path_def)


section \<open>The business upsert\<close>

lemma case_earlier_Some: "case_earlier (Some lo) (Some x) = Some (min lo x)"
  by (auto simp: case_earlier_def min_def)

lemma case_later_Some: "case_later (Some hi) (Some x) = Some (max hi x)"
  by (auto simp: case_later_def max_def)

lemma upsert_business_null_name:
  "business_name n = None \<Longrightarrow> \<exists>m. upsert_business d n = Inl (IntegrityError m)"
  by (simp add: upsert_business_def)

lemma upsert_business_insert:
  assumes "business_id n = Some b" "business_name n = Some nm" "business_rows_of d b = []"
  shows "\<exists>d'. upsert_business d n = Inr d' \<and>
     business_rows_of d' b =
       [\<lparr>b_business_id = Some b, b_business_name = nm, b_first_review_date = review_date n,
         b_last_review_date = review_date n, b_total_reviews = 1\<rparr>]"
proof -
  have "Some b \<notin> set (map b_business_id (business d))"
    using assms(3) by (auto simp: business_rows_of_def filter_empty_conv)
  then show ?thesis
    using assms by (simp add: upsert_business_def business_rows_of_def)
qed

lemma upsert_business_update:
  assumes "business_id n = Some b" "business_name n = Some nm" "business_rows_of d b = [row]"
  shows "\<exists>d'. upsert_business d n = Inr d' \<and>
     business_rows_of d' b =
       [row\<lparr>b_business_name := nm,
             b_first_review_date := case_earlier (b_first_review_date row) (review_date n),
             b_last_review_date := case_later (b_last_review_date row) (review_date n),
             b_total_reviews := b_total_reviews row + 1\<rparr>]"
proof -
  let ?f = "\<lambda>r. if b_business_id r = Some b
                 then r\<lparr>b_business_name := nm,
                        b_first_review_date := case_earlier (b_first_review_date r) (review_date n),
                        b_last_review_date := case_later (b_last_review_date r) (review_date n),
                        b_total_reviews := b_total_reviews r + 1\<rparr>
                 else r"
  have "row \<in> set (filter (\<lambda>r. b_business_id r = Some b) (business d))"
    using assms(3) by (simp add: business_rows_of_def)
  then have mem: "Some b \<in> set (map b_business_id (business d))" by force
  have key: "\<And>r. (b_business_id (?f r) = Some b) = (b_business_id r = Some b)" by simp
  have "filter (\<lambda>r. b_business_id r = Some b) (map ?f (business d)) =
        map ?f (filter (\<lambda>r. b_business_id r = Some b) (business d))"
    by (simp add: filter_map comp_def)
  also have "\<dots> = [?f row]" using assms(3) by (simp add: business_rows_of_def)
  finally have "filter (\<lambda>r. b_business_id r = Some b) (map ?f (business d)) = [?f row]" .
  moreover have "b_business_id row = Some b"
    using \<open>row \<in> _\<close> by simp
  ultimately show ?thesis
    using assms(1,2) mem by (simp add: upsert_business_def business_rows_of_def)
qed

lemma Min_insert_min:
  fixes a :: "'a::linorder"
  assumes "finite A"
  shows "Min (insert (min a x) A) = Min (insert a (insert x A))"
proof (cases "A = {}")
  case True
  then show ?thesis by simp
next
  case False
  have "Min (insert (min a x) A) = min (min a x) (Min A)"
    using assms False by (rule Min_insert)
  moreover have "Min (insert a (insert x A)) = min a (min x (Min A))"
    using assms False by simp
  ultimately show ?thesis by (simp add: min.assoc)
qed

lemma Max_insert_max:
  fixes a :: "'a::linorder"
  assumes "finite A"
  shows "Max (insert (max a x) A) = Max (insert a (insert x A))"
proof (cases "A = {}")
  case True
  then show ?thesis by simp
next
  case False
  have "Max (insert (max a x) A) = max (max a x) (Max A)"
    using assms False by (rule Max_insert)
  moreover have "Max (insert a (insert x A)) = max a (max x (Max A))"
    using assms False by simp
  ultimately show ?thesis by (simp add: max.assoc)
qed

lemma seq_from_row:
  assumes "\<forall>n\<in>set ns. business_id n = Some b \<and> review_date n \<noteq> None"
    and "business_rows_of d b = [row]"
    and "b_first_review_date row = Some lo" "b_last_review_date row = Some hi"
  shows "case upsert_business_seq d ns of
           Inl e \<Rightarrow> \<exists>n\<in>set ns. business_name n = None
         | Inr d' \<Rightarrow> \<exists>row'. business_rows_of d' b = [row'] \<and>
             b_total_reviews row' = b_total_reviews row + int (length ns) \<and>
             b_first_review_date row' = Some (Min (insert lo (set (map (the \<circ> review_date) ns)))) \<and>
             b_last_review_date row' = Some (Max (insert hi (set (map (the \<circ> review_date) ns))))"
  using assms
proof (induction ns arbitrary: d row lo hi)
  case Nil
  then show ?case by simp
next
  case (Cons n ns)
  from Cons.prems(1) obtain x where n: "business_id n = Some b" "review_date n = Some x"
    by auto
  show ?case
  proof (cases "business_name n")
    case None
    then show ?thesis by (simp add: upsert_business_def)
  next
    case (Some nm)
    let ?row1 = "row\<lparr>b_business_name := nm,
             b_first_review_date := case_earlier (b_first_review_date row) (review_date n),
             b_last_review_date := case_later (b_last_review_date row) (review_date n),
             b_total_reviews := b_total_reviews row + 1\<rparr>"
    from upsert_business_update[OF n(1) Some Cons.prems(2)]
    obtain d1 where d1: "upsert_business d n = Inr d1" "business_rows_of d1 b = [?row1]"
      by blast
    have f: "b_first_review_date ?row1 = Some (min lo x)"
      and l: "b_last_review_date ?row1 = Some (max hi x)"
      using Cons.prems(3,4) n(2) by (simp_all add: case_earlier_Some case_later_Some)
    have rest: "\<forall>n\<in>set ns. business_id n = Some b \<and> review_date n \<noteq> None"
      using Cons.prems(1) by simp
    have mn: "Min (insert (min lo x) (set (map (the \<circ> review_date) ns))) =
              Min (insert lo (set (map (the \<circ> review_date) (n # ns))))"
      using n(2) by (simp add: Min_insert_min)
    have mx: "Max (insert (max hi x) (set (map (the \<circ> review_date) ns))) =
              Max (insert hi (set (map (the \<circ> review_date) (n # ns))))"
      using n(2) by (simp add: Max_insert_max)
    from Cons.IH[OF rest d1(2) f l]
    show ?thesis
      using d1(1) mn mx by (auto split: sum.splits)
  qed
qed


text \<open>
  Claim C2.  Take a database with no row for business \<open>b\<close> and any non-empty sequence of
  normalized rows of that business, each with a review date.  The sequence of
  \<open>upsert_business\<close> calls raises only if one of the rows has no business name
  (the \<open>NOT NULL\<close> column); otherwise the table then holds exactly one row for \<open>b\<close>,
  whose \<open>total_reviews\<close> is the number of calls and whose \<open>first_review_date\<close> and
  \<open>last_review_date\<close> are the least and the greatest of the dates, in the order in which
  SQLite compares text (for the normalized dates, the order of time).
\<close>

theorem upsert_business_counts_and_range:
  assumes "ns \<noteq> []"
    and "\<forall>n\<in>set ns. business_id n = Some b \<and> review_date n \<noteq> None"
    and "business_rows_of d b = []"
  shows "case upsert_business_seq d ns of
           Inl e \<Rightarrow> \<exists>n\<in>set ns. business_name n = None
         | Inr d' \<Rightarrow> \<exists>row. business_rows_of d' b = [row] \<and>
             b_total_reviews row = int (length ns) \<and>
             b_first_review_date row = Some (Min (set (map (the \<circ> review_date) ns))) \<and>
             b_last_review_date row = Some (Max (set (map (the \<circ> review_date) ns)))"
proof -
  from assms(1) obtain n rest where ns: "ns = n # rest" by (cases ns) auto
  from assms(2) ns obtain x where n: "business_id n = Some b" "review_date n = Some x" by auto
  show ?thesis
  proof (cases "business_name n")
    case None
    then show ?thesis by (simp add: ns upsert_business_def)
  next
    case (Some nm)
    let ?row1 = "\<lparr>b_business_id = Some b, b_business_name = nm, b_first_review_date = review_date n,
         b_last_review_date = review_date n, b_total_reviews = 1\<rparr>"
    from upsert_business_insert[OF n(1) Some assms(3)]
    obtain d1 where d1: "upsert_business d n = Inr d1" "business_rows_of d1 b = [?row1]"
      by blast
    have rest: "\<forall>n\<in>set rest. business_id n = Some b \<and> review_date n \<noteq> None"
      using assms(2) ns by simp
    have f: "b_first_review_date ?row1 = Some x" and l: "b_last_review_date ?row1 = Some x"
      using n(2) by simp_all
    from seq_from_row[OF rest d1(2) f l]
    show ?thesis
      using d1(1) n(2) by (auto simp: ns split: sum.splits)
  qed
qed

text \<open>The example of the claim: dates 2024-01-01, then 2023-06-01.\<close>

theorem upsert_business_counts_and_range_witness:
  "\<exists>d' row.
     upsert_business_seq empty_db
       [review_of_business ''r-1'' ''2024-01-01T00:00:00Z'',
        review_of_business ''r-2'' ''2023-06-01T00:00:00Z''] = Inr d' \<and>
     business_rows_of d' ''b-1'' = [row] \<and> b_total_reviews row = 2 \<and>
     b_first_review_date row = Some ''2023-06-01T00:00:00Z'' \<and>
     b_last_review_date row = Some ''2024-01-01T00:00:00Z''"
proof -
  let ?ns = "[review_of_business ''r-1'' ''2024-01-01T00:00:00Z'',
              review_of_business ''r-2'' ''2023-06-01T00:00:00Z'']"
  have h1: "?ns \<noteq> []" by simp
  have h2: "\<forall>n\<in>set ?ns. business_id n = Some ''b-1'' \<and> review_date n \<noteq> None"
    by (simp add: review_of_business_def)
  have h3: "business_rows_of empty_db ''b-1'' = []"
    by (simp add: business_rows_of_def empty_db_def)
  have names: "\<not> (\<exists>n\<in>set ?ns. business_name n = None)"
    by (simp add: review_of_business_def)
  have lt: "''2023-06-01T00:00:00Z'' < ''2024-01-01T00:00:00Z''" by simp
  have mn: "Min (set (map (the \<circ> review_date) ?ns)) = ''2023-06-01T00:00:00Z''"
    using lt by (simp add: review_of_business_def min_def)
  have mx: "Max (set (map (the \<circ> review_date) ?ns)) = ''2024-01-01T00:00:00Z''"
    using lt by (simp add: review_of_business_def max_def)
  show ?thesis
    using upsert_business_counts_and_range[OF h1 h2 h3] names
    unfolding mn mx
    by (cases "upsert_business_seq empty_db ?ns") auto
qed


section \<open>Facts about \<open>validate_row\<close> and the upserts\<close>

lemma truthyE: "truthy x \<Longrightarrow> \<exists>s. x = Some s \<and> s \<noteq> []"
  by (cases x) auto

lemma rating_okE: "rating_ok r \<Longrightarrow> \<exists>k. r = Some k"
  by (cases r) (auto simp: rating_ok_def)

lemma validate_row_Inr:
  assumes "validate_row E raw = Inr (ok, errs, n)"
  shows "\<exists>rating rd. errs = row_errors raw rating rd \<and> n = normalized_row raw rating rd \<and>
           ok = (errs = [])"
  using assms by (auto simp: validate_row_def Let_def split: sum.splits)

lemma validate_row_fields:
  assumes "validate_row E raw = Inr (ok, errs, n)"
  shows "user_id n = trim (raw ''Reviewer Id'')"
    and "business_id n = trim (raw ''Business Id'')"
    and "review_id n = trim (raw ''Review Id'')"
    and "business_name n = trim (raw ''Business Name'')"
    and "user_name n = trim (raw ''Reviewer Name'')"
    and "review_ip_address n = trim (raw ''Review IP Address'')"
    and "email_address n = (if truthy (trim (raw ''Email Address'')) then trim (raw ''Email Address'') else None)"
    and "source_file n = None" and "source_row n = None"
  using validate_row_Inr[OF assms] by (auto simp: normalized_row_def)

lemma row_errors_Nil:
  "row_errors raw rating rd = [] \<longleftrightarrow>
     (\<forall>col\<in>set RAW_REQUIRED_COLS. raw col \<noteq> None) \<and>
     truthy (trim (raw ''Review Id'')) \<and> truthy (trim (raw ''Reviewer Id'')) \<and>
     truthy (trim (raw ''Business Id'')) \<and> rating_ok rating \<and> truthy rd \<and>
     (truthy (trim (raw ''Email Address'')) \<longrightarrow> EMAIL_RE (the (trim (raw ''Email Address'')))) \<and>
     (truthy (trim (raw ''Review IP Address'')) \<longrightarrow> IP_RE (the (trim (raw ''Review IP Address''))))"
  unfolding row_errors_def by (simp add: filter_empty_conv)

lemma validate_row_valid:
  assumes "validate_row E raw = Inr (True, errs, n)"
  shows "errs = []"
    and "truthy (review_id n)" and "truthy (user_id n)" and "truthy (business_id n)"
    and "rating_ok (review_rating n)" and "truthy (review_date n)"
proof -
  from validate_row_Inr[OF assms] obtain rating rd where
    e: "errs = row_errors raw rating rd" and n: "n = normalized_row raw rating rd"
    and ok: "errs = []" by blast
  from e ok have z: "row_errors raw rating rd = []" by simp
  show "errs = []" by (rule ok)
  show "truthy (review_id n)" "truthy (user_id n)" "truthy (business_id n)"
    "rating_ok (review_rating n)" "truthy (review_date n)"
    using z[unfolded row_errors_Nil] by (simp_all add: n normalized_row_def)
qed

lemma validate_row_errors:
  assumes "validate_row E raw = Inr (ok, errs, n)"
    and "truthy (trim (raw ''Email Address''))" "\<not> EMAIL_RE (the (trim (raw ''Email Address'')))"
    and "truthy (trim (raw ''Review IP Address''))" "\<not> IP_RE (the (trim (raw ''Review IP Address'')))"
  shows "ok = False"
    and "''Email Address invalid: '' @ repr (trim (raw ''Email Address'')) \<in> set errs"
    and "''Review IP Address invalid: '' @ repr (trim (raw ''Review IP Address'')) \<in> set errs"
proof -
  from validate_row_Inr[OF assms(1)] obtain rating rd where
    e: "errs = row_errors raw rating rd" and ok: "ok = (errs = [])" by blast
  show m1: "''Email Address invalid: '' @ repr (trim (raw ''Email Address'')) \<in> set errs"
    using assms(2,3) by (simp add: e row_errors_def)
  show "''Review IP Address invalid: '' @ repr (trim (raw ''Review IP Address'')) \<in> set errs"
    using assms(4,5) by (simp add: e row_errors_def)
  show "ok = False" using m1 ok by auto
qed

lemma keys_map_update:
  assumes "\<And>x. key (f x) = key x"
  shows "map key (map (\<lambda>x. if key x = k then f x else x) xs) = map key xs"
  by (induction xs) (simp_all add: assms)

lemma others_map_update:
  assumes "\<And>x. key (f x) = key x"
  shows "filter (\<lambda>x. key x \<noteq> k) (map (\<lambda>x. if key x = k then f x else x) xs) =
         filter (\<lambda>x. key x \<noteq> k) xs"
  by (induction xs) (simp_all add: assms)

lemma upsert_business_keys:
  assumes "upsert_business d n = Inr d'"
  shows "set (map b_business_id (business d')) = insert (business_id n) (set (map b_business_id (business d)))"
proof (cases "business_name n")
  case None
  with assms show ?thesis by (simp add: upsert_business_def)
next
  case (Some nm)
  show ?thesis
  proof (cases "business_id n \<noteq> None \<and> business_id n \<in> set (map b_business_id (business d))")
    case True
    have "map b_business_id (business d') = map b_business_id (business d)"
      using assms Some True
      by (auto simp: upsert_business_def intro!: keys_map_update[where key = b_business_id])
    then show ?thesis using True by auto
  next
    case False
    then show ?thesis using assms Some by (auto simp: upsert_business_def)
  qed
qed

lemma upsert_business_ok:
  assumes "business_name n = Some nm"
  shows "\<exists>d'. upsert_business d n = Inr d' \<and> user d' = user d \<and> review d' = review d \<and>
           load_audit d' = load_audit d"
  using assms by (simp add: upsert_business_def)

lemma upsert_user_frame:
  "business (upsert_user E d n) = business d" "review (upsert_user E d n) = review d"
  "load_audit (upsert_user E d n) = load_audit d"
  by (simp_all add: upsert_user_def)

lemma upsert_user_keys:
  "set (map u_user_id (user (upsert_user E d n))) = insert (user_id n) (set (map u_user_id (user d)))"
proof (cases "user_id n \<noteq> None \<and> user_id n \<in> set (map u_user_id (user d))")
  case True
  have "map u_user_id (user (upsert_user E d n)) = map u_user_id (user d)"
    using True by (auto simp: upsert_user_def intro!: keys_map_update[where key = u_user_id])
  then show ?thesis using True by auto
next
  case False
  then show ?thesis by (auto simp: upsert_user_def)
qed

lemma upsert_review_ok:
  assumes "user_id n = Some u" "business_id n = Some b" "review_date n = Some dt"
    "review_rating n = Some k" "review_id n = Some rid"
    and "Some b \<in> set (map b_business_id (business d))" "Some u \<in> set (map u_user_id (user d))"
  shows "\<exists>d'. upsert_review E d n = Inr d' \<and> business d' = business d \<and> user d' = user d \<and>
           load_audit d' = load_audit d \<and>
           Some rid \<in> set (map r_review_id (review d')) \<and>
           (\<forall>r\<in>set (review d'). r_review_id r = Some rid \<longrightarrow>
               r_source_file r = source_file n \<and> r_source_row r = source_row n) \<and>
           length (review d') =
             length (review d) + (if Some rid \<in> set (map r_review_id (review d)) then 0 else 1) \<and>
           filter (\<lambda>r. r_review_id r \<noteq> Some rid) (review d') =
             filter (\<lambda>r. r_review_id r \<noteq> Some rid) (review d)"
proof (cases "Some rid \<in> set (map r_review_id (review d))")
  case True
  define g :: "review_row \<Rightarrow> review_row" where "g = (\<lambda>r. r\<lparr>r_review_date := dt, r_review_rating := k,
                        r_review_title := review_title n, r_review_content := review_content n,
                        r_review_ip_address := review_ip_address n,
                        r_review_ip_redacted := redact_ip E (review_ip_address n),
                        r_source_file := source_file n, r_source_row := source_row n\<rparr>)"
  define rs where "rs = map (\<lambda>r. if r_review_id r = Some rid then g r else r) (review d)"
  have gk: "\<And>r. r_review_id (g r) = r_review_id r" by (simp add: g_def)
  have run: "upsert_review E d n = Inr (d\<lparr>review := rs\<rparr>)"
    using assms True by (simp add: upsert_review_def rs_def g_def)
  have ids: "map r_review_id rs = map r_review_id (review d)"
    unfolding rs_def by (rule keys_map_update) (rule gk)
  have flt: "filter (\<lambda>r. r_review_id r \<noteq> Some rid) rs =
             filter (\<lambda>r. r_review_id r \<noteq> Some rid) (review d)"
    unfolding rs_def by (rule others_map_update) (rule gk)
  have mem: "Some rid \<in> set (map r_review_id rs)"
    using True by (simp only: ids)
  have len: "length rs = length (review d)" by (simp add: rs_def)
  have lin: "\<forall>r\<in>set rs. r_review_id r = Some rid \<longrightarrow>
               r_source_file r = source_file n \<and> r_source_row r = source_row n"
    by (auto simp: rs_def g_def)
  show ?thesis
    unfolding run using True mem lin flt len by simp
next
  case False
  have run: "upsert_review E d n = Inr (d\<lparr>review := review d @ [review_of E n]\<rparr>)"
    using assms False by (simp add: upsert_review_def review_of_def)
  have lin: "\<forall>r\<in>set (review d). r_review_id r \<noteq> Some rid"
    using False by (metis image_eqI list.set_map)
  have flt: "filter (\<lambda>r. r_review_id r \<noteq> Some rid) (review d) = review d"
    using lin by (simp add: filter_id_conv)
  show ?thesis
    unfolding run using False assms(5) lin flt by (auto simp: review_of_def)
qed


lemma sublist_join:
  "x \<in> set xs \<Longrightarrow> sublist x (join sep xs)"
proof (induction sep xs rule: join.induct)
  case (1 sep)
  then show ?case by simp
next
  case (2 sep y)
  then show ?case by simp
next
  case (3 sep y z zs)
  show ?case
  proof (cases "x = y")
    case True
    then show ?thesis by (simp add: sublist_append_rightI)
  next
    case False
    with 3 have "sublist x (join sep (z # zs))" by simp
    then obtain ps ss where "join sep (z # zs) = ps @ x @ ss" by (auto simp: sublist_def)
    then have "join sep (y # z # zs) = (y @ sep @ ps) @ x @ ss" by simp
    then show ?thesis unfolding sublist_def by blast
  qed
qed

lemma load_rows_single:
  assumes "user_id n = Some u" "business_id n = Some b" "review_date n = Some dt"
    "review_rating n = Some k" "review_id n = Some rid" "business_name n = Some nm"
  shows "\<exists>d'. load_rows E [n] d 0 = (Inr 1, d') \<and> load_audit d' = load_audit d \<and>
           Some rid \<in> set (map r_review_id (review d')) \<and>
           (\<forall>r\<in>set (review d'). r_review_id r = Some rid \<longrightarrow>
               r_source_file r = source_file n \<and> r_source_row r = source_row n) \<and>
           length (review d') =
             length (review d) + (if Some rid \<in> set (map r_review_id (review d)) then 0 else 1) \<and>
           filter (\<lambda>r. r_review_id r \<noteq> Some rid) (review d') =
             filter (\<lambda>r. r_review_id r \<noteq> Some rid) (review d)"
proof -
  from upsert_business_ok[OF assms(6), of d]
  obtain d1 where d1: "upsert_business d n = Inr d1" "user d1 = user d" "review d1 = review d"
    "load_audit d1 = load_audit d" by blast
  have kb: "Some b \<in> set (map b_business_id (business (upsert_user E d1 n)))"
    using upsert_business_keys[OF d1(1)] assms(2) by (simp add: upsert_user_frame)
  have ku: "Some u \<in> set (map u_user_id (user (upsert_user E d1 n)))"
    using upsert_user_keys[of E d1 n] assms(1) by simp
  from upsert_review_ok[OF assms(1-5) kb ku, of E]
  obtain d3 where d3: "upsert_review E (upsert_user E d1 n) n = Inr d3"
    "load_audit d3 = load_audit (upsert_user E d1 n)"
    "Some rid \<in> set (map r_review_id (review d3))"
    "\<forall>r\<in>set (review d3). r_review_id r = Some rid \<longrightarrow>
               r_source_file r = source_file n \<and> r_source_row r = source_row n"
    "length (review d3) = length (review (upsert_user E d1 n)) +
        (if Some rid \<in> set (map r_review_id (review (upsert_user E d1 n))) then 0 else 1)"
    "filter (\<lambda>r. r_review_id r \<noteq> Some rid) (review d3) =
       filter (\<lambda>r. r_review_id r \<noteq> Some rid) (review (upsert_user E d1 n))"
    by blast
  have run: "load_rows E [n] d 0 = (Inr 1, d3)"
    using d1(1) d3(1) by simp
  show ?thesis
    unfolding run using d3(2-6) d1(2-4) by (simp add: upsert_user_frame)
qed

section \<open>Runs of \<open>process_file\<close>\<close>

lemma validate_batch_sample: "fst (validate_batch [sample_row1, sample_row2]) = [1]"
  by (simp add: validate_batch_def sample_row1_def sample_row2_def trim_def str_defs)

lemma validate_rows_sample:
  "validate_rows (sample_env fs) [1] base 2 [sample_row1, sample_row2] (0, 0, 0, 0, [], []) =
     Inr (2, 1, 1, 1,
          [(3, sample_row2,
            [''Email Address invalid: '' @ [CHR 0x27] @ ''bad-email'' @ [CHR 0x27],
             ''Review IP Address invalid: '' @ [CHR 0x27] @ ''not-an-ip'' @ [CHR 0x27],
             dup_msg])],
          [sample_norm1\<lparr>source_file := Some base, source_row := Some 2\<rparr>])"
  by (simp add: validate_sample_row1 validate_sample_row2 numeral_2_eq_2 numeral_3_eq_3)

lemma load_sample_first:
  "load_rows (sample_env fs) [sample_norm1\<lparr>source_file := Some ''a.xlsx'', source_row := Some 2\<rparr>]
     empty_db 0 = (Inr 1, db_after_a\<lparr>load_audit := []\<rparr>)"
  by (simp add: upsert_business_def upsert_user_def upsert_review_def sample_norm1_def
      empty_db_def db_after_a_def sample_env_def email_hash_value_def redact_name_def
      redact_ip_def coalesce_def str_defs)

lemma process_file_completed:
  assumes "files E path = Some f"
    and "\<not> audit_seen (conn w) path (x_sha256 f)"
    and "read_xlsx_rows E path = Inr (header, raw_rows)"
    and "fst (validate_batch raw_rows) = dups"
    and "validate_rows E dups (basename path) 2 raw_rows (0, 0, 0, 0, [], []) =
           Inr (rows_in, rows_rejected, dq_pass, dq_fail, bad_rows, good_norm)"
    and "w1 = (if bad_rows \<noteq> []
               then write_quarantine E (splitext_root (basename path)) header bad_rows w else w)"
    and "load_rows E good_norm (conn w1) 0 = (Inr rows_loaded, d)"
  shows "process_file E path w =
           (Inr (rows_in, rows_loaded, rows_rejected, dq_pass, dq_fail, good_norm),
            w1\<lparr>conn := d\<lparr>load_audit := load_audit d @
               [\<lparr>a_file = path, a_sha256 = x_sha256 f, a_rows_in = rows_in,
                 a_rows_loaded = rows_loaded, a_rows_rejected = rows_rejected,
                 a_dq_pass = dq_pass, a_dq_fail = dq_fail\<rparr>]\<rparr>\<rparr>)"
  using assms(1-5,7) unfolding assms(6) by (simp add: process_file_def)

lemma run_a_from:
  assumes "fs path_a = Some sample_file"
  shows "process_file (sample_env fs) path_a \<lparr>conn = empty_db, artifacts = arts\<rparr> =
     (Inr (2, 1, 1, 1, 1, [sample_norm1\<lparr>source_file := Some ''a.xlsx'', source_row := Some 2\<rparr>]),
      \<lparr>conn = db_after_a,
       artifacts = arts(''data/quarantine/a_20240101_120000_bad_rows.csv'' \<mapsto> sample_quarantine_rows)\<rparr>)"
proof -
  let ?E = "sample_env fs"
  let ?w = "\<lparr>conn = empty_db, artifacts = arts\<rparr>"
  let ?bad = "[(3::nat, sample_row2,
            [''Email Address invalid: '' @ [CHR 0x27] @ ''bad-email'' @ [CHR 0x27],
             ''Review IP Address invalid: '' @ [CHR 0x27] @ ''not-an-ip'' @ [CHR 0x27],
             dup_msg])]"
  have b: "basename path_a = ''a.xlsx''" "splitext_root ''a.xlsx'' = ''a''"
    by (simp_all add: basename_def path_a_def splitext_root_def dirname_slash_def)
  have f: "files ?E path_a = Some sample_file"
    using assms by (simp add: sample_env_def)
  have r: "read_xlsx_rows ?E path_a = Inr (sample_header, [sample_row1, sample_row2])"
    by (rule read_sample) (rule assms)
  have na: "\<not> audit_seen (conn ?w) path_a (x_sha256 sample_file)"
    by (simp add: audit_seen_def empty_db_def)
  define w1 where "w1 = (if ?bad \<noteq> []
       then write_quarantine ?E (splitext_root (basename path_a)) sample_header ?bad ?w else ?w)"
  have w1: "w1 = \<lparr>conn = empty_db,
       artifacts = arts(''data/quarantine/a_20240101_120000_bad_rows.csv'' \<mapsto> sample_quarantine_rows)\<rparr>"
    by (simp add: w1_def write_quarantine_def b QUARANTINE_DIR_def sample_env_def
        sample_header_def sample_row2_def dup_msg_def sample_quarantine_rows_def)
  have l: "load_rows ?E [sample_norm1\<lparr>source_file := Some (basename path_a), source_row := Some 2\<rparr>]
             (conn w1) 0 = (Inr 1, db_after_a\<lparr>load_audit := []\<rparr>)"
  proof -
    have c: "conn w1 = empty_db" by (simp add: w1)
    show ?thesis unfolding c b by (rule load_sample_first)
  qed
  show ?thesis
    unfolding process_file_completed[OF f na r validate_batch_sample validate_rows_sample w1_def l]
    by (simp add: w1 b db_after_a_def sample_file_def)
qed

lemma run_a:
  "process_file (sample_env two_copies) path_a empty_world =
     (Inr (2, 1, 1, 1, 1, [sample_norm1\<lparr>source_file := Some ''a.xlsx'', source_row := Some 2\<rparr>]),
      \<lparr>conn = db_after_a,
       artifacts = [''data/quarantine/a_20240101_120000_bad_rows.csv'' \<mapsto> sample_quarantine_rows]\<rparr>)"
proof -
  have "two_copies path_a = Some sample_file"
    by (simp add: two_copies_def path_a_def path_b_def)
  from run_a_from[of two_copies, OF this, of Map.empty]
  show ?thesis by (simp add: empty_world_def)
qed

lemma world_after_a_conn: "conn world_after_a = db_after_a"
  by (simp add: world_after_a_def run_a)

lemma load_sample_second:
  "load_rows (sample_env fs) [sample_norm1\<lparr>source_file := Some ''b.xlsx'', source_row := Some 2\<rparr>]
     db_after_a 0 =
   (Inr 1, db_after_a
      \<lparr>business := [(hd (business db_after_a))\<lparr>b_total_reviews := 2\<rparr>],
       user := [(hd (user db_after_a))\<lparr>u_total_reviews := 2\<rparr>],
       review := [(hd (review db_after_a))\<lparr>r_source_file := Some ''b.xlsx''\<rparr>]\<rparr>)"
  by (simp add: upsert_business_def upsert_user_def upsert_review_def sample_norm1_def
      db_after_a_def sample_env_def email_hash_value_def redact_name_def
      redact_ip_def coalesce_def case_earlier_def case_later_def str_defs)

lemma run_b:
  "fst (process_file (sample_env two_copies) path_b world_after_a) =
     Inr (2, 1, 1, 1, 1, [sample_norm1\<lparr>source_file := Some ''b.xlsx'', source_row := Some 2\<rparr>])"
  "map a_file (load_audit (conn (snd (process_file (sample_env two_copies) path_b world_after_a)))) =
     [path_a, path_b]"
  "map b_total_reviews (business (conn (snd (process_file (sample_env two_copies) path_b world_after_a)))) = [2]"
proof -
  let ?E = "sample_env two_copies"
  let ?bad = "[(3::nat, sample_row2,
            [''Email Address invalid: '' @ [CHR 0x27] @ ''bad-email'' @ [CHR 0x27],
             ''Review IP Address invalid: '' @ [CHR 0x27] @ ''not-an-ip'' @ [CHR 0x27],
             dup_msg])]"
  have b: "basename path_b = ''b.xlsx''"
    by (simp add: basename_def path_b_def)
  have f: "files ?E path_b = Some sample_file"
    by (simp add: sample_env_def two_copies_def path_a_def path_b_def)
  have r: "read_xlsx_rows ?E path_b = Inr (sample_header, [sample_row1, sample_row2])"
    by (rule read_sample) (simp add: two_copies_def path_a_def path_b_def)
  have na: "\<not> audit_seen (conn world_after_a) path_b (x_sha256 sample_file)"
    by (simp add: audit_seen_def world_after_a_conn db_after_a_def path_a_def path_b_def)
  define w1 where "w1 = (if ?bad \<noteq> []
       then write_quarantine ?E (splitext_root (basename path_b)) sample_header ?bad world_after_a
       else world_after_a)"
  have c: "conn w1 = db_after_a"
    by (simp add: w1_def write_quarantine_def world_after_a_conn)
  have l: "load_rows ?E [sample_norm1\<lparr>source_file := Some (basename path_b), source_row := Some 2\<rparr>]
             (conn w1) 0 =
   (Inr 1, db_after_a
      \<lparr>business := [(hd (business db_after_a))\<lparr>b_total_reviews := 2\<rparr>],
       user := [(hd (user db_after_a))\<lparr>u_total_reviews := 2\<rparr>],
       review := [(hd (review db_after_a))\<lparr>r_source_file := Some ''b.xlsx''\<rparr>]\<rparr>)"
    unfolding c b by (rule load_sample_second)
  note run = process_file_completed[OF f na r validate_batch_sample validate_rows_sample w1_def l]
  show "fst (process_file (sample_env two_copies) path_b world_after_a) =
     Inr (2, 1, 1, 1, 1, [sample_norm1\<lparr>source_file := Some ''b.xlsx'', source_row := Some 2\<rparr>])"
    unfolding run by (simp add: b)
  show "map a_file (load_audit (conn (snd (process_file (sample_env two_copies) path_b world_after_a)))) =
     [path_a, path_b]"
    unfolding run by (simp add: db_after_a_def)
  show "map b_total_reviews (business (conn (snd (process_file (sample_env two_copies) path_b world_after_a)))) = [2]"
    unfolding run by (simp add: db_after_a_def)
qed

lemma process_file_skipped:
  assumes "files E path = Some f" and "audit_seen (conn w) path (x_sha256 f)"
  shows "process_file E path w = (Inr (0, 0, 0, 0, 0, []), w)"
  using assms by (simp add: process_file_def)

lemma audit_seen_append:
  "audit_seen (d\<lparr>load_audit := load_audit d @ [a]\<rparr>) p h =
     (audit_seen d p h \<or> (a_file a = p \<and> a_sha256 a = h))"
  by (auto simp: audit_seen_def)

lemma process_file_Inr_seen:
  assumes "process_file E path w = (Inr st, w')"
  shows "\<exists>f. files E path = Some f \<and> audit_seen (conn w') path (x_sha256 f)"
proof (cases "files E path")
  case None
  with assms show ?thesis by (simp add: process_file_def)
next
  case (Some f)
  show ?thesis
  proof (cases "audit_seen (conn w) path (x_sha256 f)")
    case True
    with assms Some have "w' = w" by (simp add: process_file_def)
    with True Some show ?thesis by simp
  next
    case False
    show ?thesis
    proof (cases "read_xlsx_rows E path")
      case (Inl e)
      with assms Some False show ?thesis by (simp add: process_file_def)
    next
      case (Inr hr)
      obtain header raw_rows where hr: "hr = (header, raw_rows)" by (cases hr)
      show ?thesis
      proof (cases "validate_rows E (fst (validate_batch raw_rows)) (basename path) 2 raw_rows
                      (0, 0, 0, 0, [], [])")
        case (Inl e)
        with assms Some False Inr hr show ?thesis by (simp add: process_file_def)
      next
        case vr: (Inr acc)
        obtain rows_in rows_rejected dq_pass dq_fail bad_rows good_norm where
          acc: "acc = (rows_in, rows_rejected, dq_pass, dq_fail, bad_rows, good_norm)"
          by (cases acc) auto
        define w1 where "w1 = (if bad_rows \<noteq> []
               then write_quarantine E (splitext_root (basename path)) header bad_rows w else w)"
        obtain res d where ld: "load_rows E good_norm (conn w1) 0 = (res, d)"
          by (cases "load_rows E good_norm (conn w1) 0")
        show ?thesis
        proof (cases res)
          case (Inl e)
          with assms Some False Inr hr vr acc ld show ?thesis
            by (simp add: process_file_def w1_def)
        next
          case (Inr k)
          have "process_file E path w =
             (Inr (rows_in, k, rows_rejected, dq_pass, dq_fail, good_norm),
              w1\<lparr>conn := d\<lparr>load_audit := load_audit d @
                 [\<lparr>a_file = path, a_sha256 = x_sha256 f, a_rows_in = rows_in,
                   a_rows_loaded = k, a_rows_rejected = rows_rejected,
                   a_dq_pass = dq_pass, a_dq_fail = dq_fail\<rparr>]\<rparr>\<rparr>)"
            by (rule process_file_completed[OF Some False _ refl _ w1_def])
               (use \<open>read_xlsx_rows E path = Inr hr\<close> hr vr acc ld Inr in simp_all)
          with assms have "w' = w1\<lparr>conn := d\<lparr>load_audit := load_audit d @
                 [\<lparr>a_file = path, a_sha256 = x_sha256 f, a_rows_in = rows_in,
                   a_rows_loaded = k, a_rows_rejected = rows_rejected,
                   a_dq_pass = dq_pass, a_dq_fail = dq_fail\<rparr>]\<rparr>\<rparr>" by simp
          then show ?thesis using Some by (simp add: audit_seen_append)
        qed
      qed
    qed
  qed
qed

lemma validate_batch_single: "fst (validate_batch [raw]) = []"
  by (simp add: validate_batch_def split: option.splits)

lemma process_file_load_raises:
  assumes "files E path = Some f"
    and "\<not> audit_seen (conn w) path (x_sha256 f)"
    and "read_xlsx_rows E path = Inr (header, raw_rows)"
    and "fst (validate_batch raw_rows) = dups"
    and "validate_rows E dups (basename path) 2 raw_rows (0, 0, 0, 0, [], []) =
           Inr (rows_in, rows_rejected, dq_pass, dq_fail, bad_rows, good_norm)"
    and "w1 = (if bad_rows \<noteq> []
               then write_quarantine E (splitext_root (basename path)) header bad_rows w else w)"
    and "load_rows E good_norm (conn w1) 0 = (Inl e, d)"
  shows "process_file E path w = (Inl e, w1\<lparr>conn := d\<rparr>)"
  using assms(1-5,7) unfolding assms(6) by (simp add: process_file_def)


section \<open>The skip of an audited file\<close>

text \<open>
  Claim C1, as the code has it.  The lookup is \<open>WHERE file=? AND sha256=?\<close>: a file is
  skipped when its path together with its fingerprint is in \<open>load_audit\<close>.  Then
  \<open>process_file\<close> returns the all-zero statistics and the state is the one it was given:
  no table and no artifact has changed.  And whenever \<open>process_file\<close> has returned, a
  second call on the same path and the same bytes is such a skip.
\<close>

theorem process_file_skips_audited_pair:
  "(files E path = Some f \<and> audit_seen (conn w) path (x_sha256 f) \<longrightarrow>
      process_file E path w = (Inr (0, 0, 0, 0, 0, []), w)) \<and>
   (process_file E path w = (Inr st, w') \<longrightarrow>
      process_file E path w' = (Inr (0, 0, 0, 0, 0, []), w'))"
proof (intro conjI impI)
  assume "files E path = Some f \<and> audit_seen (conn w) path (x_sha256 f)"
  then show "process_file E path w = (Inr (0, 0, 0, 0, 0, []), w)"
    by (simp add: process_file_skipped)
next
  assume "process_file E path w = (Inr st, w')"
  from process_file_Inr_seen[OF this] obtain f' where
    "files E path = Some f'" "audit_seen (conn w') path (x_sha256 f')" by blast
  then show "process_file E path w' = (Inr (0, 0, 0, 0, 0, []), w')"
    by (rule process_file_skipped)
qed

text \<open>The workbook, processed a second time under its path.\<close>

theorem process_file_skips_audited_pair_witness:
  "audit_seen (conn world_after_a) path_a (x_sha256 sample_file) \<and>
   process_file (sample_env two_copies) path_a world_after_a =
     (Inr (0, 0, 0, 0, 0, []), world_after_a)"
proof -
  have "process_file (sample_env two_copies) path_a empty_world =
          (fst (process_file (sample_env two_copies) path_a empty_world), world_after_a)"
    by (simp add: world_after_a_def)
  moreover have "fst (process_file (sample_env two_copies) path_a empty_world) =
      Inr (2, 1, 1, 1, 1, [sample_norm1\<lparr>source_file := Some ''a.xlsx'', source_row := Some 2\<rparr>])"
    by (simp add: run_a)
  ultimately have "process_file (sample_env two_copies) path_a empty_world =
     (Inr (2, 1, 1, 1, 1, [sample_norm1\<lparr>source_file := Some ''a.xlsx'', source_row := Some 2\<rparr>]),
      world_after_a)" by simp
  then have "process_file (sample_env two_copies) path_a world_after_a =
     (Inr (0, 0, 0, 0, 0, []), world_after_a)"
    by (rule process_file_skips_audited_pair[THEN conjunct2, THEN mp])
  moreover have "audit_seen (conn world_after_a) path_a (x_sha256 sample_file)"
    by (simp add: audit_seen_def world_after_a_conn db_after_a_def sample_file_def)
  ultimately show ?thesis by simp
qed

text \<open>
  The claim as stated fails: the fingerprint of the second copy is in \<open>load_audit\<close>,
  under the path of the first, and the second copy is processed all the same.  It
  returns non-zero statistics, appends an audit row and counts the review of business
  \<open>b-1\<close> a second time.
\<close>

theorem fingerprint_alone_does_not_skip:
  "files (sample_env two_copies) path_b = Some sample_file \<and>
   x_sha256 sample_file \<in> set (map a_sha256 (load_audit (conn world_after_a))) \<and>
   fst (process_file (sample_env two_copies) path_b world_after_a) =
     Inr (2, 1, 1, 1, 1, [sample_norm1\<lparr>source_file := Some ''b.xlsx'', source_row := Some 2\<rparr>]) \<and>
   map a_file (load_audit (conn (snd (process_file (sample_env two_copies) path_b world_after_a)))) =
     [path_a, path_b] \<and>
   map b_total_reviews (business (conn world_after_a)) = [1] \<and>
   map b_total_reviews (business (conn (snd (process_file (sample_env two_copies) path_b world_after_a)))) = [2]"
proof -
  have f: "files (sample_env two_copies) path_b = Some sample_file"
    by (simp add: sample_env_def two_copies_def path_a_def path_b_def)
  have m: "x_sha256 sample_file \<in> set (map a_sha256 (load_audit (conn world_after_a)))"
    by (simp add: world_after_a_conn db_after_a_def sample_file_def)
  have t: "map b_total_reviews (business (conn world_after_a)) = [1]"
    by (simp add: world_after_a_conn db_after_a_def)
  show ?thesis using f m t run_b by simp
qed

section \<open>Runs of \<open>build_stage_and_load\<close>\<close>

lemma discover_good_then_corrupt:
  "discover_files (sample_env good_then_corrupt) RAW_GLOB_DEFAULTS = [path_a, path_b]"
  by (simp add: discover_files_def sample_env_def good_then_corrupt_def RAW_GLOB_DEFAULTS_def
      path_a_def path_b_def)

lemma process_file_unreadable:
  assumes "files E path = Some f" "\<not> audit_seen (conn w) path (x_sha256 f)"
    "read_xlsx_rows E path = Inl e"
  shows "process_file E path w = (Inl e, w)"
  using assms by (simp add: process_file_def)

lemma build_failed:
  assumes "discover_files E patterns = fs"
    and "process_files E fs \<lparr>conn = database dk, artifacts = quarantine dk\<rparr> ((0, 0, 0, 0, 0), []) =
           (Inl e, w)"
  shows "build_stage_and_load E patterns stage_path dk = (Inl e, dk\<lparr>quarantine := artifacts w\<rparr>)"
  using assms by (simp add: build_stage_and_load_def)

lemma build_completed:
  assumes "discover_files E patterns = fs"
    and "process_files E fs \<lparr>conn = database dk, artifacts = quarantine dk\<rparr> ((0, 0, 0, 0, 0), []) =
           (Inr ((a0, a1, a2, a3, a4), stage_rows), w)"
    and "stage_rows \<noteq> []"
    and "write_stage_parquet E stage_rows stage_path
           (dk\<lparr>database := conn w, quarantine := artifacts w\<rparr>) = (used, dk2)"
  shows "build_stage_and_load E patterns stage_path dk =
           (Inr (length fs, a0, a1, a2, a3, a4, length stage_rows, used), dk2)"
  using assms by (simp add: build_stage_and_load_def)

lemma run_good_then_corrupt:
  "build_stage_and_load (sample_env good_then_corrupt) RAW_GLOB_DEFAULTS STAGE_PATH_DEFAULT empty_disk =
     (Inl BadZipFile,
      empty_disk\<lparr>quarantine := [''data/quarantine/a_20240101_120000_bad_rows.csv'' \<mapsto> sample_quarantine_rows]\<rparr>)"
proof -
  let ?E = "sample_env good_then_corrupt"
  let ?wa = "\<lparr>conn = db_after_a,
       artifacts = [''data/quarantine/a_20240101_120000_bad_rows.csv'' \<mapsto> sample_quarantine_rows]\<rparr>"
  have fa: "good_then_corrupt path_a = Some sample_file"
    by (simp add: good_then_corrupt_def path_a_def path_b_def)
  have fb: "files ?E path_b = Some corrupt_file"
    by (simp add: sample_env_def good_then_corrupt_def)
  have nb: "\<not> audit_seen (conn ?wa) path_b (x_sha256 corrupt_file)"
    by (simp add: audit_seen_def db_after_a_def path_a_def path_b_def)
  have rb: "read_xlsx_rows ?E path_b = Inl BadZipFile"
    by (simp add: read_xlsx_rows_def fb corrupt_file_def)
  have pb: "process_file ?E path_b ?wa = (Inl BadZipFile, ?wa)"
    by (rule process_file_unreadable[OF fb nb rb])
  have pa: "process_file ?E path_a \<lparr>conn = empty_db, artifacts = Map.empty\<rparr> =
     (Inr (2, 1, 1, 1, 1, [sample_norm1\<lparr>source_file := Some ''a.xlsx'', source_row := Some 2\<rparr>]), ?wa)"
    by (rule run_a_from[of good_then_corrupt, OF fa])
  have "process_files ?E [path_a, path_b]
          \<lparr>conn = database empty_disk, artifacts = quarantine empty_disk\<rparr> ((0, 0, 0, 0, 0), []) =
          (Inl BadZipFile, ?wa)"
    by (simp add: pa pb empty_disk_def)
  from build_failed[OF discover_good_then_corrupt this]
  show ?thesis by simp
qed


lemma upsert_business_audit:
  "upsert_business d n = Inr d' \<Longrightarrow> load_audit d' = load_audit d"
  by (auto simp: upsert_business_def split: option.splits if_splits)

lemma upsert_review_audit:
  "upsert_review E d n = Inr d' \<Longrightarrow> load_audit d' = load_audit d"
  by (auto simp: upsert_review_def split: option.splits if_splits)

lemma load_rows_audit:
  "load_audit (snd (load_rows E ns d k)) = load_audit d"
proof (induction ns arbitrary: d k)
  case Nil
  show ?case by simp
next
  case (Cons n ns)
  show ?case
  proof (cases "upsert_business d n")
    case (Inl e)
    then show ?thesis by simp
  next
    case b: (Inr d1)
    show ?thesis
    proof (cases "upsert_review E (upsert_user E d1 n) n")
      case (Inl e)
      then show ?thesis
        using b upsert_business_audit[OF b] by (simp add: upsert_user_frame)
    next
      case r: (Inr d3)
      have "load_audit d3 = load_audit d"
        using upsert_review_audit[OF r] upsert_business_audit[OF b]
        by (simp add: upsert_user_frame)
      then show ?thesis using b r Cons.IH[of d3 "k + 1"] by simp
    qed
  qed
qed

lemma write_quarantine_conn: "conn (write_quarantine E stem header bad w) = conn w"
  by (simp add: write_quarantine_def)

lemma process_file_audit_appends:
  "\<exists>extra. load_audit (conn (snd (process_file E path w))) = load_audit (conn w) @ extra"
proof (cases "files E path")
  case None
  then show ?thesis by (simp add: process_file_def)
next
  case (Some f)
  show ?thesis
  proof (cases "audit_seen (conn w) path (x_sha256 f)")
    case True
    with Some show ?thesis by (simp add: process_file_def)
  next
    case False
    show ?thesis
    proof (cases "read_xlsx_rows E path")
      case (Inl e)
      with Some False show ?thesis by (simp add: process_file_def)
    next
      case (Inr hr)
      obtain header raw_rows where hr: "hr = (header, raw_rows)" by (cases hr)
      show ?thesis
      proof (cases "validate_rows E (fst (validate_batch raw_rows)) (basename path) 2 raw_rows
                      (0, 0, 0, 0, [], [])")
        case (Inl e)
        with Some False Inr hr show ?thesis by (simp add: process_file_def)
      next
        case vr: (Inr acc)
        obtain rows_in rows_rejected dq_pass dq_fail bad_rows good_norm where
          acc: "acc = (rows_in, rows_rejected, dq_pass, dq_fail, bad_rows, good_norm)"
          by (cases acc) auto
        define w1 where "w1 = (if bad_rows \<noteq> []
               then write_quarantine E (splitext_root (basename path)) header bad_rows w else w)"
        have c1: "conn w1 = conn w" by (simp add: w1_def write_quarantine_conn)
        obtain res d where ld: "load_rows E good_norm (conn w1) 0 = (res, d)"
          by (cases "load_rows E good_norm (conn w1) 0")
        have la: "load_audit d = load_audit (conn w)"
          using load_rows_audit[of E good_norm "conn w1" 0] ld c1 by simp
        show ?thesis
        proof (cases res)
          case (Inl e)
          with Some False Inr hr vr acc ld la show ?thesis
            by (simp add: process_file_def w1_def)
        next
          case (Inr k)
          with Some False \<open>read_xlsx_rows E path = Inr hr\<close> hr vr acc ld la show ?thesis
            by (simp add: process_file_def w1_def)
        qed
      qed
    qed
  qed
qed

lemma process_file_audit_mono:
  assumes "audit_seen (conn w) q h"
  shows "audit_seen (conn (snd (process_file E path w))) q h"
proof -
  from process_file_audit_appends[of E path w] obtain extra where
    "load_audit (conn (snd (process_file E path w))) = load_audit (conn w) @ extra" ..
  with assms show ?thesis by (simp add: audit_seen_def)
qed

lemma process_files_audit_mono:
  assumes "audit_seen (conn w) q h"
  shows "audit_seen (conn (snd (process_files E ps w acc))) q h"
  using assms
proof (induction ps arbitrary: w acc)
  case Nil
  then show ?case by simp
next
  case (Cons p ps)
  obtain a0 a1 a2 a3 a4 stage_rows where acc: "acc = ((a0, a1, a2, a3, a4), stage_rows)"
    by (cases acc) auto
  obtain r w1 where pf: "process_file E p w = (r, w1)" by (cases "process_file E p w")
  have s1: "audit_seen (conn w1) q h"
    using process_file_audit_mono[OF Cons.prems, of E p] pf by simp
  show ?case
  proof (cases r)
    case (Inl e)
    then show ?thesis using pf s1 acc by simp
  next
    case (Inr st)
    obtain r_in r_loaded r_rej r_pass r_fail good_norm where
      st: "st = (r_in, r_loaded, r_rej, r_pass, r_fail, good_norm)" by (cases st) auto
    show ?thesis
      using pf Inr st acc Cons.IH[OF s1] by simp
  qed
qed

lemma process_files_Inr_seen:
  assumes "process_files E ps w acc = (Inr acc', w')"
  shows "\<forall>p\<in>set ps. \<exists>f. files E p = Some f \<and> audit_seen (conn w') p (x_sha256 f)"
  using assms
proof (induction ps arbitrary: w acc)
  case Nil
  then show ?case by simp
next
  case (Cons p ps)
  obtain a0 a1 a2 a3 a4 stage_rows where acc: "acc = ((a0, a1, a2, a3, a4), stage_rows)"
    by (cases acc) auto
  obtain r w1 where pf: "process_file E p w = (r, w1)" by (cases "process_file E p w")
  show ?case
  proof (cases r)
    case (Inl e)
    with Cons.prems pf acc show ?thesis by simp
  next
    case (Inr st)
    obtain r_in r_loaded r_rej r_pass r_fail good_norm where
      st: "st = (r_in, r_loaded, r_rej, r_pass, r_fail, good_norm)" by (cases st) auto
    let ?acc1 = "((a0 + r_in, a1 + r_loaded, a2 + r_rej, a3 + r_pass, a4 + r_fail), stage_rows @ good_norm)"
    have rest: "process_files E ps w1 ?acc1 = (Inr acc', w')"
      using Cons.prems pf Inr st acc by simp
    from process_file_Inr_seen[of E p w st w1] pf Inr
    obtain f where f: "files E p = Some f" "audit_seen (conn w1) p (x_sha256 f)" by auto
    have "audit_seen (conn w') p (x_sha256 f)"
      using process_files_audit_mono[OF f(2), of E ps ?acc1] rest by simp
    with f(1) Cons.IH[OF rest] show ?thesis by simp
  qed
qed

lemma run_only_a:
  "build_stage_and_load (sample_env only_a) RAW_GLOB_DEFAULTS STAGE_PATH_DEFAULT empty_disk =
     (Inr (1, 2, 1, 1, 1, 1, 1, ''data/stage/reviews.csv''),
      \<lparr>database = db_after_a,
       quarantine = [''data/quarantine/a_20240101_120000_bad_rows.csv'' \<mapsto> sample_quarantine_rows],
       stage = [''data/stage/reviews.csv'' \<mapsto>
                  [sample_norm1\<lparr>source_file := Some ''a.xlsx'', source_row := Some 2\<rparr>]]\<rparr>)"
proof -
  let ?E = "sample_env only_a"
  let ?wa = "\<lparr>conn = db_after_a,
       artifacts = [''data/quarantine/a_20240101_120000_bad_rows.csv'' \<mapsto> sample_quarantine_rows]\<rparr>"
  have fa: "only_a path_a = Some sample_file" by (simp add: only_a_def)
  have d: "discover_files ?E RAW_GLOB_DEFAULTS = [path_a]"
    by (simp add: discover_files_def sample_env_def only_a_def RAW_GLOB_DEFAULTS_def
        path_a_def)
  have pa: "process_file ?E path_a \<lparr>conn = empty_db, artifacts = Map.empty\<rparr> =
     (Inr (2, 1, 1, 1, 1, [sample_norm1\<lparr>source_file := Some ''a.xlsx'', source_row := Some 2\<rparr>]), ?wa)"
    by (rule run_a_from[of only_a, OF fa])
  have pfs: "process_files ?E [path_a]
          \<lparr>conn = database empty_disk, artifacts = quarantine empty_disk\<rparr> ((0, 0, 0, 0, 0), []) =
          (Inr ((2, 1, 1, 1, 1), [sample_norm1\<lparr>source_file := Some ''a.xlsx'', source_row := Some 2\<rparr>]), ?wa)"
    by (simp add: pa empty_disk_def)
  have sp: "splitext_root STAGE_PATH_DEFAULT = ''data/stage/reviews''"
    by (simp add: splitext_root_def basename_def dirname_slash_def STAGE_PATH_DEFAULT_def)
  have pe: "\<not> parquet_engine ?E" by (simp add: sample_env_def)
  have ws: "write_stage_parquet ?E
              [sample_norm1\<lparr>source_file := Some ''a.xlsx'', source_row := Some 2\<rparr>]
              STAGE_PATH_DEFAULT (empty_disk\<lparr>database := conn ?wa, quarantine := artifacts ?wa\<rparr>) =
            (''data/stage/reviews.csv'',
             \<lparr>database = db_after_a,
              quarantine = [''data/quarantine/a_20240101_120000_bad_rows.csv'' \<mapsto> sample_quarantine_rows],
              stage = [''data/stage/reviews.csv'' \<mapsto>
                  [sample_norm1\<lparr>source_file := Some ''a.xlsx'', source_row := Some 2\<rparr>]]\<rparr>)"
    by (simp add: write_stage_parquet_def pe sp empty_disk_def Let_def)
  from build_completed[OF d pfs _ ws]
  show ?thesis by simp
qed


section \<open>The transaction of a run\<close>

text \<open>
  Claim C4, as the code has it.  \<open>build_stage_and_load\<close> opens one connection for the
  whole run and \<open>connect\<close> commits once, when the loop over the files has ended
  normally.  If the processing of any file raises, nothing of the run is committed: the
  database on disk is the one before the run, without the rows and the audit row of the
  failing file and without those of the files that completed before it, and no stage
  file is written.  If the run returns, the pair of path and fingerprint of every
  discovered file is in the committed \<open>load_audit\<close>.
\<close>

theorem run_commits_all_or_nothing:
  "(build_stage_and_load E patterns stage_path dk = (Inl e, dk') \<longrightarrow>
      database dk' = database dk \<and> stage dk' = stage dk) \<and>
   (build_stage_and_load E patterns stage_path dk = (Inr res, dk') \<longrightarrow>
      (\<forall>p\<in>set (discover_files E patterns).
          \<exists>f. files E p = Some f \<and> audit_seen (database dk') p (x_sha256 f)))"
proof -
  let ?w0 = "\<lparr>conn = database dk, artifacts = quarantine dk\<rparr>"
  obtain r w where pf: "process_files E (discover_files E patterns) ?w0 ((0, 0, 0, 0, 0), []) = (r, w)"
    by (cases "process_files E (discover_files E patterns) ?w0 ((0, 0, 0, 0, 0), [])")
  show ?thesis
  proof (cases r)
    case (Inl e')
    with pf show ?thesis by (auto simp: build_stage_and_load_def)
  next
    case (Inr acc)
    obtain a0 a1 a2 a3 a4 stage_rows where acc: "acc = ((a0, a1, a2, a3, a4), stage_rows)"
      by (cases acc) auto
    have seen: "\<forall>p\<in>set (discover_files E patterns).
          \<exists>f. files E p = Some f \<and> audit_seen (conn w) p (x_sha256 f)"
      using process_files_Inr_seen[of E _ ?w0 _ acc w] pf Inr by simp
    have "\<exists>res0 dk0. build_stage_and_load E patterns stage_path dk = (Inr res0, dk0) \<and>
            database dk0 = conn w"
      using pf Inr acc
      by (simp add: build_stage_and_load_def write_stage_parquet_def Let_def)
    then obtain res0 dk0 where b: "build_stage_and_load E patterns stage_path dk = (Inr res0, dk0)"
      "database dk0 = conn w" by auto
    show ?thesis
      unfolding b using seen b(2) by auto
  qed
qed


text \<open>A run that fails at its second file, and a run that returns.\<close>

theorem run_commits_all_or_nothing_witness:
  "fst (build_stage_and_load (sample_env good_then_corrupt) RAW_GLOB_DEFAULTS STAGE_PATH_DEFAULT
          empty_disk) = Inl BadZipFile \<and>
   database (snd (build_stage_and_load (sample_env good_then_corrupt) RAW_GLOB_DEFAULTS
                    STAGE_PATH_DEFAULT empty_disk)) = empty_db \<and>
   fst (build_stage_and_load (sample_env only_a) RAW_GLOB_DEFAULTS STAGE_PATH_DEFAULT empty_disk) =
     Inr (1, 2, 1, 1, 1, 1, 1, ''data/stage/reviews.csv'') \<and>
   audit_seen (database (snd (build_stage_and_load (sample_env only_a) RAW_GLOB_DEFAULTS
                                STAGE_PATH_DEFAULT empty_disk))) path_a (x_sha256 sample_file)"
proof -
  have d: "discover_files (sample_env only_a) RAW_GLOB_DEFAULTS = [path_a]"
    by (simp add: discover_files_def sample_env_def only_a_def RAW_GLOB_DEFAULTS_def
        path_a_def)
  have fa: "files (sample_env only_a) path_a = Some sample_file"
    by (simp add: sample_env_def only_a_def)
  note fail = run_commits_all_or_nothing[THEN conjunct1, THEN mp, OF run_good_then_corrupt]
  note ok = run_commits_all_or_nothing[THEN conjunct2, THEN mp, OF run_only_a]
  have a: "audit_seen db_after_a path_a (x_sha256 sample_file)"
    using ok fa by (simp add: d)
  have e: "database empty_disk = empty_db" by (simp add: empty_disk_def)
  show ?thesis
    unfolding run_good_then_corrupt run_only_a using fail a e by simp
qed

text \<open>
  The claim as stated fails in its last part.  The workbook completes as the first file
  of the run; the second file cannot be loaded; the run raises, the committed
  \<open>load_audit\<close> is empty, and a retry on the committed database processes the workbook
  again instead of skipping it.
\<close>

theorem earlier_file_not_recorded_when_later_fails:
  "fst (process_file (sample_env good_then_corrupt) path_a
          \<lparr>conn = database empty_disk, artifacts = quarantine empty_disk\<rparr>) =
     Inr (2, 1, 1, 1, 1, [sample_norm1\<lparr>source_file := Some ''a.xlsx'', source_row := Some 2\<rparr>]) \<and>
   fst (build_stage_and_load (sample_env good_then_corrupt) RAW_GLOB_DEFAULTS STAGE_PATH_DEFAULT
          empty_disk) = Inl BadZipFile \<and>
   load_audit (database (snd (build_stage_and_load (sample_env good_then_corrupt) RAW_GLOB_DEFAULTS
                                STAGE_PATH_DEFAULT empty_disk))) = [] \<and>
   fst (process_file (sample_env good_then_corrupt) path_a
          \<lparr>conn = database (snd (build_stage_and_load (sample_env good_then_corrupt)
                                     RAW_GLOB_DEFAULTS STAGE_PATH_DEFAULT empty_disk)),
           artifacts = quarantine (snd (build_stage_and_load (sample_env good_then_corrupt)
                                          RAW_GLOB_DEFAULTS STAGE_PATH_DEFAULT empty_disk))\<rparr>) =
     Inr (2, 1, 1, 1, 1, [sample_norm1\<lparr>source_file := Some ''a.xlsx'', source_row := Some 2\<rparr>])"
proof -
  have fa: "good_then_corrupt path_a = Some sample_file"
    by (simp add: good_then_corrupt_def path_a_def path_b_def)
  have e: "database empty_disk = empty_db" "quarantine empty_disk = Map.empty"
    by (simp_all add: empty_disk_def)
  have la: "load_audit empty_db = []" by (simp add: empty_db_def)
  show ?thesis
    unfolding run_good_then_corrupt
    by (simp add: e la run_a_from[of good_then_corrupt, OF fa])
qed

section \<open>One good and one bad row\<close>

text \<open>
  Claim C8.  A file that is not in \<open>load_audit\<close> holds two data rows.  The first is
  fully valid: \<open>validate_row\<close> accepts it without errors, and it names its business, so
  that it can be loaded.  The second repeats the review identifier of the first and has
  an email and an IP address that do not match their patterns.  Then \<open>process_file\<close>
  returns \<open>rows_in = 2\<close>, \<open>rows_loaded = 1\<close>, \<open>rows_rejected = 1\<close>, \<open>dq_pass = 1\<close>,
  \<open>dq_fail = 1\<close> and the first row with its lineage; it writes exactly one review row
  (inserted, or overwritten when the identifier was in the table), tagged with the file
  name and row 2, and leaves every other review row alone; it appends one audit row; and
  the quarantine artifact holds the header and one entry, whose reason column joins the
  errors of \<open>validate_row\<close> and the duplicate message, and contains the email error, the
  IP error and the duplicate message.
\<close>

theorem process_file_valid_then_bad_row:
  assumes src: "files E path = Some f"
    and fresh: "\<not> audit_seen (conn w) path (x_sha256 f)"
    and read: "read_xlsx_rows E path = Inr (header, [row1, row2])"
    and valid1: "validate_row E row1 = Inr (True, [], n1)"
    and name1: "business_name n1 \<noteq> None"
    and ret2: "validate_row E row2 = Inr (ok2, errs2, n2)"
    and dup: "trim (row2 ''Review Id'') = trim (row1 ''Review Id'')"
    and email: "truthy (trim (row2 ''Email Address''))"
               "\<not> EMAIL_RE (the (trim (row2 ''Email Address'')))"
    and ip: "truthy (trim (row2 ''Review IP Address''))"
            "\<not> IP_RE (the (trim (row2 ''Review IP Address'')))"
  shows "\<exists>w'. process_file E path w =
           (Inr (2, 1, 1, 1, 1, [n1\<lparr>source_file := Some (basename path), source_row := Some 2\<rparr>]), w') \<and>
         review_id n1 \<in> set (map r_review_id (review (conn w'))) \<and>
         (\<forall>r\<in>set (review (conn w')). r_review_id r = review_id n1 \<longrightarrow>
            r_source_file r = Some (basename path) \<and> r_source_row r = Some 2) \<and>
         length (review (conn w')) =
           length (review (conn w)) +
           (if review_id n1 \<in> set (map r_review_id (review (conn w))) then 0 else 1) \<and>
         filter (\<lambda>r. r_review_id r \<noteq> review_id n1) (review (conn w')) =
           filter (\<lambda>r. r_review_id r \<noteq> review_id n1) (review (conn w)) \<and>
         load_audit (conn w') = load_audit (conn w) @
           [\<lparr>a_file = path, a_sha256 = x_sha256 f, a_rows_in = 2, a_rows_loaded = 1,
             a_rows_rejected = 1, a_dq_pass = 1, a_dq_fail = 1\<rparr>] \<and>
         artifacts w' = (artifacts w)
           (QUARANTINE_DIR @ ''/'' @ splitext_root (basename path) @ ''_'' @ utcnow_stamp E @ ''_bad_rows.csv'' \<mapsto>
            [header @ [''__reason__''],
             map (\<lambda>col. case row2 col of None \<Rightarrow> [] | Some v \<Rightarrow> v) header @
             [join ''; '' (errs2 @ [dup_msg])]]) \<and>
         sublist (''Email Address invalid: '' @ repr (trim (row2 ''Email Address'')))
           (join ''; '' (errs2 @ [dup_msg])) \<and>
         sublist (''Review IP Address invalid: '' @ repr (trim (row2 ''Review IP Address'')))
           (join ''; '' (errs2 @ [dup_msg])) \<and>
         sublist dup_msg (join ''; '' (errs2 @ [dup_msg]))"
proof -
  let ?good = "n1\<lparr>source_file := Some (basename path), source_row := Some 2\<rparr>"
  from validate_row_valid[OF valid1]
  have "truthy (review_id n1)" "truthy (user_id n1)" "truthy (business_id n1)"
    "rating_ok (review_rating n1)" "truthy (review_date n1)" by simp_all
  then obtain rid u b dt k where f1: "review_id n1 = Some rid" "rid \<noteq> []" "user_id n1 = Some u"
    "business_id n1 = Some b" "review_date n1 = Some dt" "review_rating n1 = Some k"
    by (meson truthyE rating_okE)
  have k1: "trim (row1 ''Review Id'') = Some rid"
    using validate_row_fields(3)[OF valid1] f1(1) by simp
  from name1 obtain nm where nm: "business_name n1 = Some nm" by auto
  have k2: "trim (row2 ''Review Id'') = Some rid" using dup k1 by simp
  have dups: "fst (validate_batch [row1, row2]) = [1]"
    using k1 k2 f1(2) by (simp add: validate_batch_def)
  have bad: "ok2 = False"
    and e1: "''Email Address invalid: '' @ repr (trim (row2 ''Email Address'')) \<in> set errs2"
    and e2: "''Review IP Address invalid: '' @ repr (trim (row2 ''Review IP Address'')) \<in> set errs2"
    using validate_row_errors[OF ret2 email ip] by simp_all
  have vr: "validate_rows E [1] (basename path) 2 [row1, row2] (0, 0, 0, 0, [], []) =
            Inr (2, 1, 1, 1, [(3, row2, errs2 @ [dup_msg])], [?good])"
    using valid1 ret2 bad by (simp add: numeral_2_eq_2 numeral_3_eq_3)
  from load_rows_single[of ?good u b dt k rid nm E "conn w"] f1 nm
  obtain d' where ld: "load_rows E [?good] (conn w) 0 = (Inr 1, d')"
    "load_audit d' = load_audit (conn w)"
    "Some rid \<in> set (map r_review_id (review d'))"
    "\<forall>r\<in>set (review d'). r_review_id r = Some rid \<longrightarrow>
        r_source_file r = Some (basename path) \<and> r_source_row r = Some 2"
    "length (review d') = length (review (conn w)) +
        (if Some rid \<in> set (map r_review_id (review (conn w))) then 0 else 1)"
    "filter (\<lambda>r. r_review_id r \<noteq> Some rid) (review d') =
       filter (\<lambda>r. r_review_id r \<noteq> Some rid) (review (conn w))"
    by auto
  define w1 where "w1 = write_quarantine E (splitext_root (basename path)) header
                          [(3, row2, errs2 @ [dup_msg])] w"
  have w1c: "conn w1 = conn w" by (simp add: w1_def write_quarantine_def)
  have run: "process_file E path w =
      (Inr (2, 1, 1, 1, 1, [?good]),
       w1\<lparr>conn := d'\<lparr>load_audit := load_audit d' @
          [\<lparr>a_file = path, a_sha256 = x_sha256 f, a_rows_in = 2, a_rows_loaded = 1,
            a_rows_rejected = 1, a_dq_pass = 1, a_dq_fail = 1\<rparr>]\<rparr>\<rparr>)"
    using src fresh read dups vr ld(1) by (simp add: process_file_def w1_def[symmetric] w1c)
  have s1: "sublist (''Email Address invalid: '' @ repr (trim (row2 ''Email Address'')))
           (join ''; '' (errs2 @ [dup_msg]))"
    by (rule sublist_join) (use e1 in simp)
  have s2: "sublist (''Review IP Address invalid: '' @ repr (trim (row2 ''Review IP Address'')))
           (join ''; '' (errs2 @ [dup_msg]))"
    by (rule sublist_join) (use e2 in simp)
  have s3: "sublist dup_msg (join ''; '' (errs2 @ [dup_msg]))"
    by (rule sublist_join) simp
  show ?thesis
    unfolding run using ld(2-6) s1 s2 s3 f1(1)
    by (simp add: w1_def write_quarantine_def)
qed

text \<open>The workbook of the test suite, on an empty database.\<close>

theorem process_file_valid_then_bad_row_witness:
  "\<exists>w'. process_file (sample_env [sample_path \<mapsto> sample_file]) sample_path empty_world =
          (Inr (2, 1, 1, 1, 1,
                [sample_norm1\<lparr>source_file := Some ''a.xlsx'', source_row := Some 2\<rparr>]), w') \<and>
        map r_review_id (review (conn w')) = [Some ''r-1''] \<and>
        map r_source_file (review (conn w')) = [Some ''a.xlsx''] \<and>
        map r_source_row (review (conn w')) = [Some 2] \<and>
        map a_rows_loaded (load_audit (conn w')) = [1] \<and>
        artifacts w' ''data/quarantine/a_20240101_120000_bad_rows.csv'' =
          Some [sample_header @ [''__reason__''],
                [''r-1'', ''u-2'', ''b-1'', ''4'', ''2024-01-02'', [], [], ''bad-email'', ''not-an-ip'',
                 [], [], [],
                 ''Email Address invalid: '' @ [CHR 0x27] @ ''bad-email'' @ [CHR 0x27] @ ''; '' @
                 ''Review IP Address invalid: '' @ [CHR 0x27] @ ''not-an-ip'' @ [CHR 0x27] @ ''; '' @
                 ''Duplicate Review Id within file'']]"
proof -
  let ?E = "sample_env [sample_path \<mapsto> sample_file]"
  have h1: "files ?E sample_path = Some sample_file" by (simp add: sample_env_def)
  have h2: "\<not> audit_seen (conn empty_world) sample_path (x_sha256 sample_file)"
    by (simp add: audit_seen_def empty_world_def empty_db_def)
  have h3: "read_xlsx_rows ?E sample_path = Inr (sample_header, [sample_row1, sample_row2])"
    by (rule read_sample) simp
  have h5: "business_name sample_norm1 \<noteq> None" by (simp add: sample_norm1_def)
  have h7: "trim (sample_row2 ''Review Id'') = trim (sample_row1 ''Review Id'')"
    by (simp add: sample_row1_def sample_row2_def)
  have h8: "truthy (trim (sample_row2 ''Email Address''))"
    "\<not> EMAIL_RE (the (trim (sample_row2 ''Email Address'')))"
    by (simp_all add: sample_row2_def trim_def str_defs EMAIL_RE_sample)
  have h9: "truthy (trim (sample_row2 ''Review IP Address''))"
    "\<not> IP_RE (the (trim (sample_row2 ''Review IP Address'')))"
    by (simp_all add: sample_row2_def trim_def str_defs IP_RE_sample)
  from process_file_valid_then_bad_row[OF h1 h2 h3 validate_sample_row1 h5 validate_sample_row2
      h7 h8 h9]
  obtain w' where w':
    "process_file ?E sample_path empty_world =
       (Inr (2, 1, 1, 1, 1,
          [sample_norm1\<lparr>source_file := Some (basename sample_path), source_row := Some 2\<rparr>]), w')"
    "review_id sample_norm1 \<in> set (map r_review_id (review (conn w')))"
    "\<forall>r\<in>set (review (conn w')). r_review_id r = review_id sample_norm1 \<longrightarrow>
            r_source_file r = Some (basename sample_path) \<and> r_source_row r = Some 2"
    "length (review (conn w')) = length (review (conn empty_world)) +
       (if review_id sample_norm1 \<in> set (map r_review_id (review (conn empty_world))) then 0 else 1)"
    "load_audit (conn w') = load_audit (conn empty_world) @
           [\<lparr>a_file = sample_path, a_sha256 = x_sha256 sample_file, a_rows_in = 2,
             a_rows_loaded = 1, a_rows_rejected = 1, a_dq_pass = 1, a_dq_fail = 1\<rparr>]"
    "artifacts w' = (artifacts empty_world)
           (QUARANTINE_DIR @ ''/'' @ splitext_root (basename sample_path) @ ''_'' @ utcnow_stamp ?E @ ''_bad_rows.csv'' \<mapsto>
            [sample_header @ [''__reason__''],
             map (\<lambda>col. case sample_row2 col of None \<Rightarrow> [] | Some v \<Rightarrow> v) sample_header @
             [join ''; '' ([''Email Address invalid: '' @ [CHR 0x27] @ ''bad-email'' @ [CHR 0x27],
                  ''Review IP Address invalid: '' @ [CHR 0x27] @ ''not-an-ip'' @ [CHR 0x27]] @ [dup_msg])]])"
    by blast
  from w'(4) have len: "length (review (conn w')) = 1"
    by (simp add: empty_world_def empty_db_def)
  then obtain r where r: "review (conn w') = [r]"
    by (cases "review (conn w')") auto
  have rid: "r_review_id r = Some ''r-1''"
    using w'(2) r by (simp add: sample_norm1_def)
  have lin: "r_source_file r = Some ''a.xlsx''" "r_source_row r = Some 2"
    using w'(3) r rid by (simp_all add: sample_norm1_def basename_sample)
  have art: "artifacts w' ''data/quarantine/a_20240101_120000_bad_rows.csv'' =
          Some [sample_header @ [''__reason__''],
                [''r-1'', ''u-2'', ''b-1'', ''4'', ''2024-01-02'', [], [], ''bad-email'', ''not-an-ip'',
                 [], [], [],
                 ''Email Address invalid: '' @ [CHR 0x27] @ ''bad-email'' @ [CHR 0x27] @ ''; '' @
                 ''Review IP Address invalid: '' @ [CHR 0x27] @ ''not-an-ip'' @ [CHR 0x27] @ ''; '' @
                 ''Duplicate Review Id within file'']]"
    unfolding w'(6)
    by (simp add: QUARANTINE_DIR_def basename_sample sample_env_def sample_header_def
        sample_row2_def dup_msg_def)
  show ?thesis
    using w'(1) r rid lin w'(5) art
    by (simp add: basename_sample empty_world_def empty_db_def)
qed

section \<open>A valid row without a business name\<close>

lemma validate_no_name_row:
  "validate_row (sample_env fs) no_name_row = Inr (True, [], bare_norm None)"
  by (simp add: row_defs no_name_row_def bare_norm_def coerce_int_5 parse_date_sample1 str_defs)

lemma validate_empty_name_row:
  "validate_row (sample_env fs) empty_name_row = Inr (True, [], bare_norm (Some []))"
  by (simp add: row_defs empty_name_row_def no_name_row_def bare_norm_def coerce_int_5
      parse_date_sample1 str_defs)

lemma read_no_name:
  "fs p = Some no_name_file \<Longrightarrow>
   read_xlsx_rows (sample_env fs) p = Inr (required_header, [no_name_row])"
  by (simp add: read_xlsx_rows_def sample_env_def no_name_file_def required_header_def
      no_name_row_def cell_to_str_def py_str_def str_defs)

lemma read_empty_name:
  "fs p = Some empty_name_file \<Longrightarrow>
   read_xlsx_rows (sample_env fs) p = Inr (required_header @ [''Business Name''], [empty_name_row])"
  by (simp add: read_xlsx_rows_def sample_env_def empty_name_file_def required_header_def
      no_name_row_def empty_name_row_def cell_to_str_def py_str_def str_defs)

lemma load_empty_name:
  "load_rows E [bare_norm (Some [])\<lparr>source_file := Some ''a.xlsx'', source_row := Some 2\<rparr>] empty_db 0 =
     (Inr 1,
      \<lparr>business =
         [\<lparr>b_business_id = Some ''b-1'', b_business_name = [],
           b_first_review_date = Some ''2024-01-01T12:00:00Z'',
           b_last_review_date = Some ''2024-01-01T12:00:00Z'', b_total_reviews = 1\<rparr>],
       user =
         [\<lparr>u_user_id = Some ''u-1'', u_email_address = None, u_email_hash = None,
           u_user_name = None, u_user_name_redacted = None, u_reviewer_country = None,
           u_first_review_date = Some ''2024-01-01T12:00:00Z'', u_total_reviews = 1\<rparr>],
       review =
         [\<lparr>r_review_id = Some ''r-1'', r_user_id = ''u-1'', r_business_id = ''b-1'',
           r_review_date = ''2024-01-01T12:00:00Z'', r_review_rating = 5,
           r_review_title = None, r_review_content = None, r_review_ip_address = None,
           r_review_ip_redacted = None, r_source_file = Some ''a.xlsx'', r_source_row = Some 2\<rparr>],
       load_audit = []\<rparr>)"
  by (simp add: upsert_business_def upsert_user_def upsert_review_def bare_norm_def empty_db_def
      email_hash_value_def redact_name_def redact_ip_def)


text \<open>
  A row that \<open>validate_row\<close> accepts and that has no \<open>Business Name\<close> key gives a
  normalized row without a name, and \<open>upsert_business\<close> then raises the
  \<open>IntegrityError\<close> of the \<open>NOT NULL\<close> column in every state of the table, so also
  where the business is new.  When the row reaches the second loop of \<open>process_file\<close>
  (here: it is the one data row of its file), the error leaves \<open>process_file\<close>.
\<close>

lemma upsert_business_without_name:
  assumes "validate_row E raw = Inr (True, errs, n)" and "raw ''Business Name'' = None"
  shows "upsert_business d n =
           Inl (IntegrityError ''NOT NULL constraint failed: business.business_name'')"
proof -
  have "business_name n = None"
    using validate_row_fields(4)[OF assms(1)] assms(2) by (simp add: trim_def)
  then show ?thesis by (simp add: upsert_business_def)
qed

lemma process_file_single_row_without_name:
  assumes f: "files E path = Some f" and ns: "\<not> audit_seen (conn w) path (x_sha256 f)"
    and r: "read_xlsx_rows E path = Inr (header, [raw])"
    and v: "validate_row E raw = Inr (True, errs, n)" and k: "raw ''Business Name'' = None"
  shows "process_file E path w =
           (Inl (IntegrityError ''NOT NULL constraint failed: business.business_name''), w)"
proof -
  let ?n = "n\<lparr>source_file := Some (basename path), source_row := Some 2\<rparr>"
  have e: "errs = []" by (rule validate_row_valid(1)[OF v])
  have nm: "business_name ?n = None"
    using k validate_row_fields(4)[OF v] by (simp add: trim_def)
  have vr: "validate_rows E [] (basename path) 2 [raw] (0, 0, 0, 0, [], []) =
              Inr (1, 0, 1, 0, [], [?n])"
    using v e by simp
  have w1: "w = (if ([] :: bad_row list) \<noteq> []
               then write_quarantine E (splitext_root (basename path)) header [] w else w)"
    by simp
  have l: "load_rows E [?n] (conn w) 0 =
      (Inl (IntegrityError ''NOT NULL constraint failed: business.business_name''), conn w)"
    using nm by (simp add: upsert_business_def)
  from process_file_load_raises[OF f ns r validate_batch_single vr w1 l]
  show ?thesis by simp
qed

text \<open>
  Claim C10: there is a raw row that \<open>validate_row\<close> accepts, with all five required
  columns present and valid, whose \<open>Business Name\<close> is absent; for it the insert of
  \<open>upsert_business\<close> violates the \<open>NOT NULL\<close> constraint of \<open>business.business_name\<close>
  (in every state of the table, so also on first sight of the business identifier), and
  \<open>process_file\<close> on the workbook that holds it raises that \<open>IntegrityError\<close>: the row
  is neither loaded nor quarantined, no audit row is written, and the state is as before.
  The row is \<open>no_name_row\<close>, the one data row of a workbook with the five required
  columns only.
\<close>

theorem accepted_row_without_business_name_raises:
  "validate_row (sample_env [path_a \<mapsto> no_name_file]) no_name_row =
     Inr (True, [], bare_norm None) \<and>
   list_all (\<lambda>col. no_name_row col \<noteq> None) RAW_REQUIRED_COLS \<and>
   no_name_row ''Business Name'' = None \<and>
   read_xlsx_rows (sample_env [path_a \<mapsto> no_name_file]) path_a =
     Inr (required_header, [no_name_row]) \<and>
   (\<forall>d. upsert_business d (bare_norm None) =
      Inl (IntegrityError ''NOT NULL constraint failed: business.business_name'')) \<and>
   process_file (sample_env [path_a \<mapsto> no_name_file]) path_a empty_world =
     (Inl (IntegrityError ''NOT NULL constraint failed: business.business_name''), empty_world)"
proof -
  let ?E = "sample_env [path_a \<mapsto> no_name_file]"
  have v: "validate_row ?E no_name_row = Inr (True, [], bare_norm None)"
    by (rule validate_no_name_row)
  have c: "list_all (\<lambda>col. no_name_row col \<noteq> None) RAW_REQUIRED_COLS"
    by (simp add: RAW_REQUIRED_COLS_def no_name_row_def)
  have k: "no_name_row ''Business Name'' = None" by (simp add: no_name_row_def)
  have f: "files ?E path_a = Some no_name_file" by (simp add: sample_env_def)
  have ns: "\<not> audit_seen (conn empty_world) path_a (x_sha256 no_name_file)"
    by (simp add: audit_seen_def empty_world_def empty_db_def)
  have r: "read_xlsx_rows ?E path_a = Inr (required_header, [no_name_row])"
    by (rule read_no_name) simp
  have u: "\<forall>d. upsert_business d (bare_norm None) =
      Inl (IntegrityError ''NOT NULL constraint failed: business.business_name'')"
    using upsert_business_without_name[OF v k] by simp
  have p: "process_file ?E path_a empty_world =
     (Inl (IntegrityError ''NOT NULL constraint failed: business.business_name''), empty_world)"
    by (rule process_file_single_row_without_name[OF f ns r v k])
  show ?thesis using v c k r u p by simp
qed

text \<open>
  The row of the claim has to lack the key.  A \<open>Business Name\<close> cell that is present
  and empty is read as the empty string, which is not \<open>NULL\<close>: that row is accepted and
  loaded, and the business is stored with the empty name.
\<close>

lemma empty_business_name_row_is_loaded:
  "validate_row (sample_env [path_a \<mapsto> empty_name_file]) empty_name_row =
     Inr (True, [], bare_norm (Some [])) \<and>
   empty_name_row ''Business Name'' = Some [] \<and>
   upsert_business empty_db (bare_norm (Some [])) =
     Inr (empty_db\<lparr>business :=
            [\<lparr>b_business_id = Some ''b-1'', b_business_name = [],
              b_first_review_date = Some ''2024-01-01T12:00:00Z'',
              b_last_review_date = Some ''2024-01-01T12:00:00Z'', b_total_reviews = 1\<rparr>]\<rparr>) \<and>
   fst (process_file (sample_env [path_a \<mapsto> empty_name_file]) path_a empty_world) =
     Inr (1, 1, 0, 1, 0, [bare_norm (Some [])\<lparr>source_file := Some ''a.xlsx'', source_row := Some 2\<rparr>]) \<and>
   map b_business_name
     (business (conn (snd (process_file (sample_env [path_a \<mapsto> empty_name_file]) path_a empty_world)))) =
     [[]]"
proof -
  let ?E = "sample_env [path_a \<mapsto> empty_name_file]"
  let ?n = "bare_norm (Some [])\<lparr>source_file := Some (basename path_a), source_row := Some 2\<rparr>"
  have b: "basename path_a = ''a.xlsx''" by (simp add: basename_def path_a_def)
  have k: "empty_name_row ''Business Name'' = Some []" by (simp add: empty_name_row_def)
  have u: "upsert_business empty_db (bare_norm (Some [])) =
     Inr (empty_db\<lparr>business :=
            [\<lparr>b_business_id = Some ''b-1'', b_business_name = [],
              b_first_review_date = Some ''2024-01-01T12:00:00Z'',
              b_last_review_date = Some ''2024-01-01T12:00:00Z'', b_total_reviews = 1\<rparr>]\<rparr>)"
    by (simp add: upsert_business_def bare_norm_def empty_db_def)
  have f: "files ?E path_a = Some empty_name_file" by (simp add: sample_env_def)
  have ns: "\<not> audit_seen (conn empty_world) path_a (x_sha256 empty_name_file)"
    by (simp add: audit_seen_def empty_world_def empty_db_def)
  have r: "read_xlsx_rows ?E path_a = Inr (required_header @ [''Business Name''], [empty_name_row])"
    by (rule read_empty_name) simp
  have vr: "validate_rows ?E [] (basename path_a) 2 [empty_name_row] (0, 0, 0, 0, [], []) =
              Inr (1, 0, 1, 0, [], [?n])"
    by (simp add: validate_empty_name_row)
  have w1: "empty_world = (if ([] :: bad_row list) \<noteq> []
        then write_quarantine ?E (splitext_root (basename path_a))
               (required_header @ [''Business Name'']) [] empty_world else empty_world)"
    by simp
  have c: "conn empty_world = empty_db" by (simp add: empty_world_def)
  note l = load_empty_name[of ?E, folded b, folded c]
  note run = process_file_completed[OF f ns r validate_batch_single vr w1 l]
  show ?thesis
    unfolding run using validate_empty_name_row k u by (simp add: b)
qed

section \<open>The rating of a row\<close>

text \<open>
  \<open>coerce_int\<close> on some rating strings, and what \<open>validate_row\<close> does with the rating:
  it raises exactly when \<open>coerce_int\<close> does, which is the \<open>OverflowError\<close> of
  \<open>int(float(v))\<close> on an infinity; when it returns, it accepts a row only with a rating
  in 1..5 and reports every other rating with the raw value in the message.
\<close>

lemma coerce_int_inf: "coerce_int (Some ''inf'') = Inl OverflowError"
  by (simp add: float_defs str_defs)

lemma coerce_int_3_0: "coerce_int (Some ''3.0'') = Inr (Some 3)"
  by (simp add: float_defs str_defs)

lemma coerce_int_abc: "coerce_int (Some ''abc'') = Inr None"
  by (simp add: float_defs str_defs)

lemma coerce_int_raises_only_overflow: "coerce_int v = Inl e \<Longrightarrow> e = OverflowError"
  by (auto simp: coerce_int_def py_int_def Let_def
      split: option.splits if_splits sum.splits pyfloat.splits py_error.splits)

lemma validate_row_raises_only_on_rating:
  "validate_row E raw = Inl e \<longleftrightarrow>
     coerce_int (Some (case raw ''Review Rating'' of None \<Rightarrow> [] | Some v \<Rightarrow> v)) = Inl e"
  by (simp add: validate_row_def Let_def split: sum.splits)

lemma validate_row_rating_error:
  assumes "validate_row E raw = Inr (ok, errs, n)"
  shows "ok \<longrightarrow> rating_ok (review_rating n)"
    and "\<not> rating_ok (review_rating n) \<longrightarrow>
           \<not> ok \<and> ''Review Rating invalid: '' @ repr (raw ''Review Rating'') \<in> set errs"
proof -
  from validate_row_Inr[OF assms] obtain rating rd where
    e: "errs = row_errors raw rating rd" and n: "n = normalized_row raw rating rd"
    and ok: "ok = (errs = [])" by blast
  have r: "review_rating n = rating" by (simp add: n normalized_row_def)
  show "\<not> rating_ok (review_rating n) \<longrightarrow>
           \<not> ok \<and> ''Review Rating invalid: '' @ repr (raw ''Review Rating'') \<in> set errs"
    unfolding r ok e by (auto simp: row_errors_def)
  show "ok \<longrightarrow> rating_ok (review_rating n)"
    unfolding r ok e by (simp add: row_errors_Nil)
qed

text \<open>
  Claim C5 says that \<open>validate_row\<close> never raises and that every rating string that
  does not coerce makes the row invalid with a rating error.  On the rating \<open>inf\<close>
  the code raises instead: \<open>float\<close> reads the string as an infinity, \<open>int\<close> raises
  \<open>OverflowError\<close> on it, and \<open>coerce_int\<close> catches \<open>ValueError\<close> only.  The row is
  the valid row of the example workbook with its rating replaced.
\<close>

theorem validate_row_raises_on_infinite_rating:
  "coerce_int (Some ''inf'') = Inl OverflowError \<and>
   validate_row E (sample_row1(''Review Rating'' \<mapsto> ''inf'')) = Inl OverflowError"
  by (simp add: validate_row_def coerce_int_inf)


section \<open>Decimal numerals\<close>

text \<open>\<open>str\<close> of a natural number and the zero-padded fields: digits, lengths and values.\<close>

lemma of_char_digit_char: "d < 10 \<Longrightarrow> (of_char (digit_char d) :: nat) = 48 + d"
  by (simp add: digit_char_def)

lemma isdigit_digit_char: "d < 10 \<Longrightarrow> isdigit (digit_char d)"
  by (simp add: isdigit_def of_char_digit_char)

lemma digit_val_digit_char: "d < 10 \<Longrightarrow> digit_val (digit_char d) = d"
  by (simp add: digit_val_def of_char_digit_char)

lemma str_of_nat_digits: "list_all isdigit (str_of_nat n)"
proof (induction n rule: str_of_nat.induct)
  case (1 n)
  show ?case
  proof (cases "n < 10")
    case True
    then show ?thesis by (simp add: str_of_nat.simps[of n] isdigit_digit_char)
  next
    case False
    then show ?thesis using 1 by (simp add: str_of_nat.simps[of n] isdigit_digit_char)
  qed
qed

lemma length_str_of_nat_le: "n < 10 ^ Suc k \<Longrightarrow> length (str_of_nat n) \<le> Suc k"
proof (induction n arbitrary: k rule: str_of_nat.induct)
  case (1 n)
  show ?case
  proof (cases "n < 10")
    case True
    then show ?thesis by (simp add: str_of_nat.simps[of n])
  next
    case False
    then obtain j where k: "k = Suc j" using 1(2) by (cases k) auto
    have "n div 10 < 10 ^ Suc j" using 1(2) k by (simp add: less_mult_imp_div_less)
    from 1(1)[OF False this] show ?thesis using False k by (simp add: str_of_nat.simps[of n])
  qed
qed

lemma length_str_of_nat_ge: "10 ^ k \<le> n \<Longrightarrow> k < length (str_of_nat n)"
proof (induction n arbitrary: k rule: str_of_nat.induct)
  case (1 n)
  show ?case
  proof (cases "n < 10")
    case True
    have "k = 0"
    proof (cases k)
      case (Suc j)
      have "(10::nat) \<le> 10 * 10 ^ j" by simp
      with 1(2) True Suc show ?thesis by simp
    qed simp
    then show ?thesis using True by (simp add: str_of_nat.simps[of n])
  next
    case False
    show ?thesis
    proof (cases k)
      case 0
      then show ?thesis using False by (simp add: str_of_nat.simps[of n])
    next
      case (Suc j)
      have "10 ^ j \<le> n div 10" using 1(2) Suc by (simp add: less_eq_div_iff_mult_less_eq)
      from 1(1)[OF False this] show ?thesis using False Suc by (simp add: str_of_nat.simps[of n])
    qed
  qed
qed

lemma nat_of_digits_snoc: "nat_of_digits (s @ [c]) = 10 * nat_of_digits s + digit_val c"
  by (simp add: nat_of_digits_def)

lemma nat_of_digits_str_of_nat: "nat_of_digits (str_of_nat n) = n"
proof (induction n rule: str_of_nat.induct)
  case (1 n)
  show ?case
  proof (cases "n < 10")
    case True
    then show ?thesis
      by (simp add: str_of_nat.simps[of n] nat_of_digits_def digit_val_digit_char)
  next
    case False
    then show ?thesis using 1
      by (simp add: str_of_nat.simps[of n] nat_of_digits_snoc digit_val_digit_char)
  qed
qed

lemma foldl_zeros:
  "foldl (\<lambda>acc c. 10 * acc + digit_val c) 0 (replicate k CHR ''0'') = 0"
  by (induction k) (simp_all add: digit_val_def)

lemma nat_of_digits_zero_pad: "nat_of_digits (zero_pad w n) = n"
  using nat_of_digits_str_of_nat[of n]
  by (simp add: zero_pad_def nat_of_digits_def foldl_zeros Let_def)

lemma isdigit_zero: "isdigit CHR ''0''"
  by (simp add: isdigit_def)

lemma digits_zero_pad: "n < 10 ^ Suc k \<Longrightarrow> digits (Suc k) (zero_pad (Suc k) n)"
  using length_str_of_nat_le[of n k] str_of_nat_digits[of n]
  by (auto simp: digits_def zero_pad_def list_all_iff isdigit_zero Let_def)

lemma digits_zero_pad_pow: "0 < k \<Longrightarrow> n < 10 ^ k \<Longrightarrow> digits k (zero_pad k n)"
  using digits_zero_pad[of n "k - 1"] by (cases k) simp_all


lemma digits_zero_pad4: "n < 10000 \<Longrightarrow> digits 4 (zero_pad 4 n)"
  using digits_zero_pad_pow[of 4 n] by simp


lemma zero_pad_str_of_nat4: "1000 \<le> n \<Longrightarrow> zero_pad 4 n = str_of_nat n"
  using length_str_of_nat_ge[of 3 n] by (simp add: zero_pad_def)


section \<open>The cells of a workbook\<close>














section \<open>The private view\<close>





lemma coalesce_simps [simp]: "coalesce None b = b" "coalesce (Some x) b = Some x"
  by (simp_all add: coalesce_def)


















end
